theory Spec2Isabelle
  imports Main
begin

section \<open>JavaScript strings and values\<close>

text \<open>
  The plugins are JavaScript. A string is modelled as a list of 8-bit characters read as
  Latin-1 code units; an absent (\<open>undefined\<close>) string property is the empty string, because
  every use in the sources coerces it with \<open>|| ''\<close> or tests it with \<open>!x\<close>.
  \<open>toLowerCase\<close> and \<open>toUpperCase\<close> act on the ASCII letters.
\<close>

definition upper_letters :: string where
  "upper_letters = ''ABCDEFGHIJKLMNOPQRSTUVWXYZ''"

definition lower_letters :: string where
  "lower_letters = ''abcdefghijklmnopqrstuvwxyz''"

definition digit_chars :: string where
  "digit_chars = ''0123456789''"

definition lowerChar :: "char \<Rightarrow> char" where
  "lowerChar c = (case map_of (zip upper_letters lower_letters) c of Some l \<Rightarrow> l | None \<Rightarrow> c)"

definition upperChar :: "char \<Rightarrow> char" where
  "upperChar c = (case map_of (zip lower_letters upper_letters) c of Some u \<Rightarrow> u | None \<Rightarrow> c)"

definition toLowerCase :: "string \<Rightarrow> string" where
  "toLowerCase s = map lowerChar s"

definition toUpperCase :: "string \<Rightarrow> string" where
  "toUpperCase s = map upperChar s"

text \<open>The character class \<open>\s\<close> of a JavaScript regular expression, on Latin-1: tab, line
  feed, vertical tab, form feed, carriage return, space and the no-break space.\<close>

definition isSpace :: "char \<Rightarrow> bool" where
  "isSpace c = (c \<in> set [CHR 0x09, CHR 0x0A, CHR 0x0B, CHR 0x0C, CHR 0x0D, CHR 0x20, CHR 0xA0])"

definition isAlnum :: "char \<Rightarrow> bool" where
  "isAlnum c = (c \<in> set lower_letters \<or> c \<in> set upper_letters \<or> c \<in> set digit_chars)"

text \<open>\<open>s.indexOf(sub) !== -1\<close>: \<open>sub\<close> occurs in \<open>s\<close> as a contiguous run.\<close>

fun startsWith :: "string \<Rightarrow> string \<Rightarrow> bool" where
  "startsWith s [] = True"
| "startsWith [] (p # ps) = False"
| "startsWith (c # cs) (p # ps) = (c = p \<and> startsWith cs ps)"

fun hasSubstring :: "string \<Rightarrow> string \<Rightarrow> bool" where
  "hasSubstring [] sub = (sub = [])"
| "hasSubstring (c # cs) sub = (startsWith (c # cs) sub \<or> hasSubstring cs sub)"

text \<open>\<open>s.trim()\<close>.\<close>

definition trim :: "string \<Rightarrow> string" where
  "trim s = rev (dropWhile isSpace (rev (dropWhile isSpace s)))"

text \<open>\<open>s.replace(/\s+/g, ' ')\<close>: every maximal run of white space becomes one space.\<close>

function collapseSpaces :: "string \<Rightarrow> string" where
  "collapseSpaces [] = []"
| "collapseSpaces (c # cs) =
     (if isSpace c then CHR '' '' # collapseSpaces (dropWhile isSpace cs)
      else c # collapseSpaces cs)"
  by pat_completeness auto
termination
  by (relation "measure length") (auto simp: length_dropWhile_le less_Suc_eq_le)

text \<open>A value handed to a plugin input: the host passes strings, but a flow can also
  deliver numbers, booleans or nothing.\<close>

datatype js_value = JString string | JNumber int | JBoolean bool | JUndefined | JNull

section \<open>createStereoDownmix: input validation\<close>

text \<open>The characters kept by \<open>title.replace(/[^a-zA-Z0-9\s\-_()]/g, '')\<close>.\<close>

definition keptByTitleRegex :: "char \<Rightarrow> bool" where
  "keptByTitleRegex c = (isAlnum c \<or> isSpace c \<or> c \<in> set ''-_()'')"

definition sanitizeTrackTitle :: "js_value \<Rightarrow> string" where
  "sanitizeTrackTitle title =
     (case title of
        JString t \<Rightarrow>
          (let sanitized = filter keptByTitleRegex t;
               sanitized = trim (collapseSpaces sanitized);
               sanitized = (if length sanitized > 64 then take 64 sanitized else sanitized)
           in if sanitized = [] then ''Stereo'' else sanitized)
      | _ \<Rightarrow> ''Stereo'')"

text \<open>What the claim allows in a sanitized title: alphanumerics, the space, hyphen,
  underscore and parentheses.\<close>

definition titleChar :: "char \<Rightarrow> bool" where
  "titleChar c = (isAlnum c \<or> c \<in> set '' -_()'')"

section \<open>Decimal numerals\<close>

text \<open>\<open>String(n)\<close> and string concatenation with a number print an integer in decimal;
  \<open>parseInt(x, 10)\<close> reads one. Numbers are integers of any size here: the doubles of
  JavaScript agree with them below \<open>2^53\<close>.\<close>

function showDigits :: "int \<Rightarrow> string" where
  "showDigits n =
     (if n < 10 then [digit_chars ! nat n]
      else showDigits (n div 10) @ [digit_chars ! nat (n mod 10)])"
  by pat_completeness auto
termination
  by (relation "measure nat") auto

definition showInt :: "int \<Rightarrow> string" where
  "showInt i = (if i < 0 then CHR ''-'' # showDigits (- i) else showDigits i)"

definition digitVal :: "char \<Rightarrow> int option" where
  "digitVal c =
     map_of [(CHR ''0'', 0), (CHR ''1'', 1), (CHR ''2'', 2), (CHR ''3'', 3), (CHR ''4'', 4),
             (CHR ''5'', 5), (CHR ''6'', 6), (CHR ''7'', 7), (CHR ''8'', 8), (CHR ''9'', 9)] c"

definition isDigit :: "char \<Rightarrow> bool" where
  "isDigit c = (c \<in> set digit_chars)"

definition readDigits :: "string \<Rightarrow> int" where
  "readDigits ds = foldl (\<lambda>acc d. 10 * acc + (case digitVal d of Some v \<Rightarrow> v | None \<Rightarrow> 0)) 0 ds"

text \<open>\<open>parseInt(s, 10)\<close> on a string: leading white space is skipped, one sign is read,
  then the longest run of digits; no digit at all gives \<open>NaN\<close>, here \<open>None\<close>.\<close>

definition parseIntString :: "string \<Rightarrow> int option" where
  "parseIntString s =
     (let t = dropWhile isSpace s;
          neg = (t \<noteq> [] \<and> hd t = CHR ''-'');
          u = (if t \<noteq> [] \<and> (hd t = CHR ''-'' \<or> hd t = CHR ''+'') then tl t else t);
          ds = takeWhile isDigit u
      in if ds = [] then None
         else Some (if neg then - readDigits ds else readDigits ds))"

text \<open>\<open>parseInt(x, 10)\<close> converts its argument with \<open>String\<close> first: a number prints as
  its decimal numeral, and \<open>true\<close>, \<open>undefined\<close> and \<open>null\<close> print as words without a digit.\<close>

definition parseInt :: "js_value \<Rightarrow> int option" where
  "parseInt x =
     (case x of
        JString s \<Rightarrow> parseIntString s
      | JNumber n \<Rightarrow> Some n
      | _ \<Rightarrow> None)"

text \<open>\<open>validateBitrate\<close> of createStereoDownmix.\<close>

definition validateBitrate :: "js_value \<Rightarrow> int" where
  "validateBitrate bitrate =
     (case parseInt bitrate of
        None \<Rightarrow> 192
      | Some num \<Rightarrow> if num < 64 \<or> num > 512 then 192 else num)"

text \<open>\<open>parseInt(args.inputs.loudnormTarget, 10) || -16\<close>: \<open>NaN\<close> and \<open>0\<close> are falsy.\<close>

definition parseLoudnormTarget :: "js_value \<Rightarrow> int" where
  "parseLoudnormTarget x =
     (case parseInt x of None \<Rightarrow> - 16 | Some n \<Rightarrow> if n = 0 then - 16 else n)"

section \<open>Pan filters\<close>

text \<open>\<open>getPanFilter(channels)\<close> of Process Audio Complete (both revisions of the plugin
  carry the same function).\<close>

definition pan71 :: string where
  "pan71 = ''pan=stereo|FL=0.70*FL+0.70*FC+0.25*SL+0.20*BL+0.20*LFE|FR=0.70*FR+0.70*FC+0.25*SR+0.20*BR+0.20*LFE''"

definition pan51 :: string where
  "pan51 = ''pan=stereo|FL=0.70*FL+0.70*FC+0.30*SL+0.30*BL+0.25*LFE|FR=0.70*FR+0.70*FC+0.30*SR+0.30*BR+0.25*LFE''"

definition pan61 :: string where
  "pan61 = ''pan=stereo|FL=0.70*FL+0.70*FC+0.30*SL+0.20*BC+0.20*LFE|FR=0.70*FR+0.70*FC+0.30*SR+0.20*BC+0.20*LFE''"

definition panQuad :: string where
  "panQuad = ''pan=stereo|FL=0.80*FL+0.40*SL+0.40*BL|FR=0.80*FR+0.40*SR+0.40*BR''"

definition panCenter :: string where
  "panCenter = ''pan=stereo|FL=0.70*FL+0.70*FC|FR=0.70*FR+0.70*FC''"

definition aformatStereo :: string where
  "aformatStereo = ''aformat=channel_layouts=stereo''"

definition getPanFilter :: "int \<Rightarrow> string" where
  "getPanFilter channels =
     (if channels = 8 then pan71
      else if channels \<ge> 6 then pan51
      else if channels > 2 then panCenter
      else aformatStereo)"

text \<open>\<open>getPanFilter(channels, channelLayout)\<close> of createStereoDownmix.\<close>

definition getPanFilterLayout :: "int \<Rightarrow> string \<Rightarrow> string" where
  "getPanFilterLayout channels channelLayout =
     (let layout = toLowerCase channelLayout in
      if channels = 6 \<or> hasSubstring layout ''5.1'' then pan51
      else if channels = 8 \<or> hasSubstring layout ''7.1'' then pan71
      else if channels = 7 \<or> hasSubstring layout ''6.1'' then pan61
      else if channels = 4 \<or> hasSubstring layout ''quad'' \<or> hasSubstring layout ''4.0'' then panQuad
      else if channels = 3 then panCenter
      else if channels > 8 then aformatStereo
      else pan51)"

text \<open>A layout string that names none of the layouts the function looks for.\<close>

definition layoutSilent :: "string \<Rightarrow> bool" where
  "layoutSilent channelLayout =
     (let layout = toLowerCase channelLayout in
      \<not> hasSubstring layout ''5.1'' \<and> \<not> hasSubstring layout ''7.1'' \<and> \<not> hasSubstring layout ''6.1'' \<and>
      \<not> hasSubstring layout ''quad'' \<and> \<not> hasSubstring layout ''4.0'')"

section \<open>Probed streams and the main audio stream\<close>

text \<open>One record of \<open>ffProbeData.streams\<close>. \<open>channels\<close> is \<open>None\<close> when the probe gives no
  number; \<open>disposition_default\<close> is \<open>JUndefined\<close> when the stream has no disposition.\<close>

record stream =
  codec_type :: string
  codec_name :: string
  channels :: "int option"
  tags_language :: string
  tags_title :: string
  profile :: string
  channel_layout :: string
  disposition_default :: js_value

definition isAudio :: "stream \<Rightarrow> bool" where
  "isAudio s = (codec_type s = ''audio'')"

text \<open>The default-disposition test of createStereoDownmix and of Check Main Audio Stream
  Channels accepts \<open>1\<close>, \<open>true\<close> and \<open>'1'\<close>; Process Audio Complete accepts \<open>1\<close> only.\<close>

definition isDefaultLoose :: "stream \<Rightarrow> bool" where
  "isDefaultLoose s =
     (disposition_default s = JNumber 1 \<or> disposition_default s = JBoolean True \<or>
      disposition_default s = JString ''1'')"

definition isDefaultStrict :: "stream \<Rightarrow> bool" where
  "isDefaultStrict s = (disposition_default s = JNumber 1)"

text \<open>The selection loop of createStereoDownmix.\<close>

record mainSearch =
  mainAudio :: "stream option"
  mainAudioIndex :: int
  firstAudio :: "stream option"
  firstAudioIndex :: int
  audioStreamCount :: int

definition mainSearchInit :: mainSearch where
  "mainSearchInit =
     \<lparr>mainAudio = None, mainAudioIndex = - 1, firstAudio = None, firstAudioIndex = - 1,
      audioStreamCount = 0\<rparr>"

definition mainSearchStep :: "mainSearch \<Rightarrow> stream \<Rightarrow> mainSearch" where
  "mainSearchStep st s =
     (if codec_type s = ''audio'' then
        (let st1 = (if firstAudio st = None
                    then st\<lparr>firstAudio := Some s, firstAudioIndex := audioStreamCount st\<rparr>
                    else st);
             st2 = (if mainAudio st1 = None \<and> isDefaultLoose s
                    then st1\<lparr>mainAudio := Some s, mainAudioIndex := audioStreamCount st1\<rparr>
                    else st1)
         in st2\<lparr>audioStreamCount := audioStreamCount st2 + 1\<rparr>)
      else st)"

definition mainSearchRun :: "stream list \<Rightarrow> mainSearch" where
  "mainSearchRun streams = foldl mainSearchStep mainSearchInit streams"

text \<open>\<open>targetAudio = mainAudio || firstAudio\<close> with its index among the audio streams.\<close>

definition targetAudio :: "stream list \<Rightarrow> (int \<times> stream) option" where
  "targetAudio streams =
     (let st = mainSearchRun streams in
      case mainAudio st of
        Some m \<Rightarrow> Some (mainAudioIndex st, m)
      | None \<Rightarrow> (case firstAudio st of Some f \<Rightarrow> Some (firstAudioIndex st, f) | None \<Rightarrow> None))"

text \<open>The selection loop of Check Main Audio Stream Channels, which also keeps the position
  in the whole stream list.\<close>

record channelSearch =
  cs_mainAudio :: "stream option"
  cs_mainAudioGlobalIndex :: int
  cs_mainAudioRelativeIndex :: int
  cs_firstAudio :: "stream option"
  cs_firstAudioGlobalIndex :: int
  cs_firstAudioRelativeIndex :: int
  cs_audioCount :: int

definition channelSearchInit :: channelSearch where
  "channelSearchInit =
     \<lparr>cs_mainAudio = None, cs_mainAudioGlobalIndex = - 1, cs_mainAudioRelativeIndex = - 1,
      cs_firstAudio = None, cs_firstAudioGlobalIndex = - 1, cs_firstAudioRelativeIndex = - 1,
      cs_audioCount = 0\<rparr>"

fun channelSearchLoop :: "int \<Rightarrow> channelSearch \<Rightarrow> stream list \<Rightarrow> channelSearch" where
  "channelSearchLoop i st [] = st"
| "channelSearchLoop i st (s # rest) =
     (if codec_type s = ''audio'' then
        (let st1 = (if cs_firstAudio st = None
                    then st\<lparr>cs_firstAudio := Some s, cs_firstAudioGlobalIndex := i,
                            cs_firstAudioRelativeIndex := cs_audioCount st\<rparr>
                    else st);
             st2 = (if isDefaultLoose s \<and> cs_mainAudio st1 = None
                    then st1\<lparr>cs_mainAudio := Some s, cs_mainAudioGlobalIndex := i,
                             cs_mainAudioRelativeIndex := cs_audioCount st1\<rparr>
                    else st1)
         in channelSearchLoop (i + 1) (st2\<lparr>cs_audioCount := cs_audioCount st2 + 1\<rparr>) rest)
      else channelSearchLoop (i + 1) st rest)"

definition checkTargetAudio :: "stream list \<Rightarrow> (int \<times> stream) option" where
  "checkTargetAudio streams =
     (let st = channelSearchLoop 0 channelSearchInit streams in
      case cs_mainAudio st of
        Some m \<Rightarrow> Some (cs_mainAudioRelativeIndex st, m)
      | None \<Rightarrow> (case cs_firstAudio st of
                   Some f \<Rightarrow> Some (cs_firstAudioRelativeIndex st, f)
                 | None \<Rightarrow> None))"

text \<open>The main track as the specification words it: the first audio stream flagged default,
  and the first audio stream when none is flagged; with its position among the audio
  streams. \<open>flagged\<close> is the default-disposition test in use.\<close>

definition firstDefaultOrFirst :: "(stream \<Rightarrow> bool) \<Rightarrow> stream list \<Rightarrow> (int \<times> stream) option" where
  "firstDefaultOrFirst flagged streams =
     (case filter isAudio streams of
        [] \<Rightarrow> None
      | a # as \<Rightarrow>
          (case find flagged (a # as) of
             Some m \<Rightarrow> Some (int (length (takeWhile (\<lambda>s. \<not> flagged s) (a # as))), m)
           | None \<Rightarrow> Some (0, a)))"

section \<open>Process Audio Complete: analysis\<close>

text \<open>\<open>a || b\<close> on strings: the empty string is falsy. Objects used as dictionaries
  (\<open>LANGUAGE_MAP\<close>, \<open>map2\<close>, \<open>map3\<close>, \<open>seenLanguages\<close>) are association lists or lists of
  their own keys.\<close>

definition orElse :: "string \<Rightarrow> string \<Rightarrow> string" where
  "orElse a b = (if a = [] then b else a)"

definition LANGUAGE_MAP :: "(string \<times> string) list" where
  "LANGUAGE_MAP =
     [(''eng'', ''English''), (''en'', ''English''),
      (''fre'', ''French''), (''fra'', ''French''), (''fr'', ''French''),
      (''spa'', ''Spanish''), (''es'', ''Spanish''),
      (''ger'', ''German''), (''deu'', ''German''), (''de'', ''German''),
      (''ita'', ''Italian''), (''it'', ''Italian''),
      (''jpn'', ''Japanese''), (''ja'', ''Japanese''),
      (''por'', ''Portuguese''), (''pt'', ''Portuguese''),
      (''rus'', ''Russian''), (''ru'', ''Russian''),
      (''chi'', ''Chinese''), (''zho'', ''Chinese''), (''zh'', ''Chinese''),
      (''kor'', ''Korean''), (''ko'', ''Korean''),
      (''dut'', ''Dutch''), (''nld'', ''Dutch''), (''nl'', ''Dutch'')]"

definition getLanguageName :: "string \<Rightarrow> string \<Rightarrow> string" where
  "getLanguageName code defaultLang =
     (if code = [] \<or> code = ''und'' \<or> code = ''unk''
      then (case map_of LANGUAGE_MAP defaultLang of Some n \<Rightarrow> n | None \<Rightarrow> ''Unknown'')
      else (case map_of LANGUAGE_MAP (toLowerCase code) of Some n \<Rightarrow> n | None \<Rightarrow> code))"

definition getCodecDisplayName :: "string \<Rightarrow> string \<Rightarrow> string" where
  "getCodecDisplayName codecName profileText =
     (let codec = toLowerCase codecName; prof = toLowerCase profileText in
      if codec = ''eac3'' then (if hasSubstring prof ''joc'' then ''DD+ Atmos'' else ''DD+'')
      else if codec = ''ac3'' then ''DD''
      else if codec = ''dts'' \<or> codec = ''dca'' then
        (if hasSubstring prof ''ma'' \<or> hasSubstring prof ''master'' then ''DTS-HD MA''
         else if hasSubstring prof ''hra'' then ''DTS-HD HRA''
         else if hasSubstring prof ''x'' \<and> \<not> hasSubstring prof ''express'' then ''DTS:X''
         else ''DTS'')
      else if codec = ''truehd'' then
        (if hasSubstring prof ''atmos'' then ''TrueHD Atmos'' else ''TrueHD'')
      else if codec = ''aac'' then ''AAC''
      else if codec = ''flac'' then ''FLAC''
      else if codec = ''opus'' then ''Opus''
      else if hasSubstring codec ''pcm'' then ''PCM''
      else toUpperCase codec)"

text \<open>\<open>channels + 'ch'\<close> prints \<open>undefined\<close> for an absent channel count.\<close>

definition showChannels :: "int option \<Rightarrow> string" where
  "showChannels ch = (case ch of None \<Rightarrow> ''undefined'' | Some n \<Rightarrow> showInt n)"

definition getChannelDisplay :: "int option \<Rightarrow> string \<Rightarrow> string" where
  "getChannelDisplay ch profileText =
     (let prof = toLowerCase profileText in
      if hasSubstring prof ''joc'' \<or> hasSubstring prof ''atmos'' then ''Atmos''
      else if ch = Some 8 then ''7.1''
      else if ch = Some 7 then ''6.1''
      else if ch = Some 6 then ''5.1''
      else if ch = Some 2 then ''Stereo''
      else if ch = Some 1 then ''Mono''
      else showChannels ch @ ''ch'')"

definition map2 :: "(string \<times> string) list" where
  "map2 =
     [(''en'', ''eng''), (''fr'', ''fre''), (''es'', ''spa''), (''de'', ''ger''), (''it'', ''ita''),
      (''pt'', ''por''), (''nl'', ''dut''), (''sv'', ''swe''), (''no'', ''nor''), (''da'', ''dan''),
      (''fi'', ''fin''), (''pl'', ''pol''), (''cs'', ''cze''), (''ja'', ''jpn''), (''ko'', ''kor''),
      (''zh'', ''chi''), (''ar'', ''ara''), (''ru'', ''rus''), (''uk'', ''ukr'')]"

definition map3 :: "(string \<times> string) list" where
  "map3 =
     [(''fra'', ''fre''), (''deu'', ''ger''), (''nld'', ''dut''), (''zho'', ''chi''),
      (''ces'', ''cze''), (''ron'', ''rum'')]"

definition normalizeLangCode :: "string \<Rightarrow> string" where
  "normalizeLangCode code =
     (if code = [] then ''und''
      else (let c = toLowerCase code in
            case (if length c = 2 then map_of map2 c else None) of
              Some r \<Rightarrow> r
            | None \<Rightarrow> (case map_of map3 c of Some r \<Rightarrow> r | None \<Rightarrow> c)))"

text \<open>The user's policy after the plugin has parsed its inputs.\<close>

record policy =
  createDDP :: bool
  createStereo :: bool
  stereoBitrate :: int
  normalize :: bool
  loudnormTarget :: int
  languagePriority :: "string list"
  codecPriority :: "string list"
  defaultLanguage :: string

text \<open>An entry of \<open>audioStreams\<close>.\<close>

record audioInfo =
  audioIndex :: nat
  codec :: string
  codecLower :: string
  a_channels :: "int option"
  a_language :: string
  normLang :: string
  a_profile :: string
  a_title :: string
  isDefault :: bool

text \<open>The variables the analysis loop updates.\<close>

record analysis =
  audioStreams :: "audioInfo list"
  hasMultichannel :: bool
  hasEnglishStereo :: bool
  pa_mainAudioIndex :: nat
  mainAudioChannels :: int
  mainAudioLang :: string
  mainAudioCodec :: string

definition analysisInit :: "policy \<Rightarrow> analysis" where
  "analysisInit pol =
     \<lparr>audioStreams = [], hasMultichannel = False, hasEnglishStereo = False,
      pa_mainAudioIndex = 0, mainAudioChannels = 0, mainAudioLang = defaultLanguage pol,
      mainAudioCodec = []\<rparr>"

text \<open>\<open>s.channels > 2\<close>, \<open>s.channels === 2\<close> and \<open>s.channels || 2\<close> on a possibly absent
  number.\<close>

definition channelsAbove2 :: "int option \<Rightarrow> bool" where
  "channelsAbove2 ch = (case ch of None \<Rightarrow> False | Some n \<Rightarrow> n > 2)"

definition channelsOr2 :: "int option \<Rightarrow> int" where
  "channelsOr2 ch = (case ch of None \<Rightarrow> 2 | Some n \<Rightarrow> if n = 0 then 2 else n)"

definition analyseStep :: "policy \<Rightarrow> analysis \<Rightarrow> stream \<Rightarrow> analysis" where
  "analyseStep pol st s =
     (if codec_type s = ''audio'' then
        (let lang = tags_language s;
             nl = normalizeLangCode lang;
             cl = toLowerCase (codec_name s);
             currentAudioIdx = length (audioStreams st);
             st1 = st\<lparr>audioStreams := audioStreams st @
                      [\<lparr>audioIndex = currentAudioIdx, codec = codec_name s, codecLower = cl,
                        a_channels = channels s, a_language = lang, normLang = nl,
                        a_profile = profile s, a_title = tags_title s,
                        isDefault = isDefaultStrict s\<rparr>]\<rparr>;
             st2 = (if channelsAbove2 (channels s) then st1\<lparr>hasMultichannel := True\<rparr> else st1);
             st3 = (if currentAudioIdx = 0 \<or> isDefaultStrict s
                    then st2\<lparr>pa_mainAudioIndex := currentAudioIdx,
                             mainAudioChannels := channelsOr2 (channels s),
                             mainAudioLang := orElse nl (defaultLanguage pol),
                             mainAudioCodec := cl\<rparr>
                    else st2)
         in if channels s = Some 2 \<and> (nl = ''eng'' \<or> lang = [] \<or> lang = ''und'')
            then st3\<lparr>hasEnglishStereo := True\<rparr> else st3)
      else st)"

definition analyse :: "policy \<Rightarrow> stream list \<Rightarrow> analysis" where
  "analyse pol streams = foldl (analyseStep pol) (analysisInit pol) streams"

definition mainIsDTS :: "analysis \<Rightarrow> bool" where
  "mainIsDTS an = (mainAudioCodec an = ''dts'' \<or> mainAudioCodec an = ''dca'')"

definition needsDDP :: "policy \<Rightarrow> analysis \<Rightarrow> bool" where
  "needsDDP pol an = (createDDP pol \<and> mainIsDTS an)"

definition needsStereo :: "policy \<Rightarrow> analysis \<Rightarrow> bool" where
  "needsStereo pol an = (createStereo pol \<and> mainAudioChannels an > 2 \<and> \<not> hasEnglishStereo an)"

section \<open>Process Audio Complete: the track plan\<close>

text \<open>An entry of \<open>outputAudio\<close>. \<open>source\<close> is \<open>Some n\<close> for the string \<open>'0:a:n'\<close> and \<open>None\<close>
  for \<open>null\<close>, so \<open>parseAudioIndexFromSource\<close> reads \<open>n\<close> back; a \<open>null\<close> title is the empty
  string, and the properties a new track does not carry (\<open>profile\<close>, \<open>originalCodec\<close>,
  \<open>isStereo\<close>) are empty or false. \<open>markedOriginal\<close> records whether the title loop pushed
  \<open>'Original'\<close> into \<open>titleParts\<close> for the track.\<close>

record track =
  source :: "nat option"
  filterLabel :: "string option"
  t_codec :: string
  bitrate :: "int option"
  t_title :: string
  t_language :: string
  t_channels :: "int option"
  t_profile :: string
  originalCodec :: string
  isNew :: bool
  isDDP :: bool
  isStereo :: bool
  markedOriginal :: bool

definition ddpTrack :: "analysis \<Rightarrow> track" where
  "ddpTrack an =
     \<lparr>source = Some (pa_mainAudioIndex an), filterLabel = None, t_codec = ''eac3'',
      bitrate = Some 640, t_title = [], t_language = mainAudioLang an,
      t_channels = Some (mainAudioChannels an), t_profile = [], originalCodec = [],
      isNew = True, isDDP = True, isStereo = False, markedOriginal = False\<rparr>"

definition copyTrack :: "analysis \<Rightarrow> audioInfo \<Rightarrow> track" where
  "copyTrack an as =
     \<lparr>source = Some (audioIndex as), filterLabel = None, t_codec = ''copy'',
      bitrate = None, t_title = [], t_language = orElse (a_language as) (mainAudioLang an),
      t_channels = a_channels as, t_profile = a_profile as, originalCodec = codec as,
      isNew = False, isDDP = False, isStereo = False, markedOriginal = False\<rparr>"

definition stereoTrack :: "policy \<Rightarrow> analysis \<Rightarrow> track" where
  "stereoTrack pol an =
     \<lparr>source = None, filterLabel = Some ''stereo_out'', t_codec = ''aac'',
      bitrate = Some (stereoBitrate pol), t_title = [], t_language = mainAudioLang an,
      t_channels = Some 2, t_profile = [], originalCodec = [],
      isNew = True, isDDP = False, isStereo = True, markedOriginal = False\<rparr>"

definition buildOutputAudio :: "policy \<Rightarrow> analysis \<Rightarrow> track list" where
  "buildOutputAudio pol an =
     (if needsDDP pol an then [ddpTrack an] else []) @
     map (copyTrack an) (audioStreams an) @
     (if needsStereo pol an then [stereoTrack pol an] else [])"

text \<open>\<open>xs.indexOf(x)\<close>: the first position of \<open>x\<close>, or \<open>-1\<close>.\<close>

fun indexOf :: "'a list \<Rightarrow> 'a \<Rightarrow> int" where
  "indexOf [] x = - 1"
| "indexOf (y # ys) x =
     (if y = x then 0 else (let r = indexOf ys x in if r = - 1 then - 1 else r + 1))"

definition langRank :: "string list \<Rightarrow> track \<Rightarrow> int" where
  "langRank prio t =
     (let idx = indexOf prio (normalizeLangCode (t_language t)) in if idx = - 1 then 999 else idx)"

definition codecRank :: "string list \<Rightarrow> track \<Rightarrow> int" where
  "codecRank prio t =
     (let idx = indexOf prio (toLowerCase (originalCodec t)) in if idx = - 1 then 999 else idx)"

text \<open>The comparator handed to \<open>originalTracks.sort\<close>.\<close>

definition compareTracks :: "policy \<Rightarrow> track \<Rightarrow> track \<Rightarrow> int" where
  "compareTracks pol a b =
     (let aLangIdx = langRank (languagePriority pol) a;
          bLangIdx = langRank (languagePriority pol) b
      in if aLangIdx \<noteq> bLangIdx then aLangIdx - bLangIdx
         else codecRank (codecPriority pol) a - codecRank (codecPriority pol) b)"

text \<open>\<open>Array.prototype.sort\<close> with a comparator is a stable sort (required since ECMAScript
  2019; an older engine may reorder equal elements of a long array, which the model does
  not cover); for a comparator that orders
  by a key, as this one does, its result is the one an insertion sort from the right
  gives, which places an element before the first one it does not exceed.\<close>

fun insertSorted :: "('a \<Rightarrow> 'a \<Rightarrow> int) \<Rightarrow> 'a \<Rightarrow> 'a list \<Rightarrow> 'a list" where
  "insertSorted cmp x [] = [x]"
| "insertSorted cmp x (y # ys) =
     (if cmp x y \<le> 0 then x # y # ys else y # insertSorted cmp x ys)"

definition jsSort :: "('a \<Rightarrow> 'a \<Rightarrow> int) \<Rightarrow> 'a list \<Rightarrow> 'a list" where
  "jsSort cmp xs = foldr (insertSorted cmp) xs []"

text \<open>Final order: DD+ (if created), sorted originals, stereo (if created).\<close>

definition orderOutputAudio :: "policy \<Rightarrow> track list \<Rightarrow> track list" where
  "orderOutputAudio pol out =
     filter isDDP out @ jsSort (compareTracks pol) (filter (\<lambda>t. \<not> isNew t) out) @
     filter isStereo out"

fun joinWith :: "string \<Rightarrow> string list \<Rightarrow> string" where
  "joinWith sep [] = []"
| "joinWith sep [p] = p"
| "joinWith sep (p # q # ps) = p @ sep @ joinWith sep (q # ps)"

text \<open>The title loop; \<open>seen\<close> holds the keys of \<open>seenLanguages\<close>.\<close>

definition trackCodecDisplay :: "track \<Rightarrow> string" where
  "trackCodecDisplay t =
     (if isDDP t then ''DD+''
      else if isStereo t then ''AAC''
      else getCodecDisplayName (originalCodec t) (t_profile t))"

definition trackChannelDisplay :: "track \<Rightarrow> string" where
  "trackChannelDisplay t =
     (let codecDisplay = trackCodecDisplay t;
          channelDisplay = getChannelDisplay (t_channels t) (t_profile t)
      in if hasSubstring codecDisplay ''Atmos'' \<and> channelDisplay = ''Atmos''
         then (if t_channels t = Some 8 then ''7.1'' else ''5.1'')
         else channelDisplay)"

definition trackLangKey :: "string \<Rightarrow> track \<Rightarrow> string" where
  "trackLangKey dl t = orElse (normalizeLangCode (t_language t)) dl"

text \<open>One turn of the loop for track \<open>t\<close>: the track with its title.\<close>

definition titleEntry :: "string \<Rightarrow> string list \<Rightarrow> track \<Rightarrow> track" where
  "titleEntry dl seen t =
     (let lang = trackLangKey dl t;
          langName = getLanguageName (t_language t) dl;
          isOriginal = (lang \<notin> set seen \<and> \<not> isNew t);
          titleParts = [langName] @ (if isOriginal \<and> \<not> isNew t then [''Original''] else [])
      in t\<lparr>t_title := joinWith '' '' titleParts @ '' - '' @ trackCodecDisplay t @ '' - '' @
                        trackChannelDisplay t,
            markedOriginal := (isOriginal \<and> \<not> isNew t)\<rparr>)"

fun titleLoop :: "string \<Rightarrow> string list \<Rightarrow> track list \<Rightarrow> track list" where
  "titleLoop dl seen [] = []"
| "titleLoop dl seen (t # ts) =
     titleEntry dl seen t #
     titleLoop dl (if \<not> isNew t then trackLangKey dl t # seen else seen) ts"

text \<open>The check whether anything has to be done. The sorted \<open>originalTracks\<close> are the
  objects of \<open>outputAudio\<close> that are not new, so they carry the titles the loop has set.\<close>

definition parseAudioIndexFromSource :: "nat option \<Rightarrow> int" where
  "parseAudioIndexFromSource src = (case src of None \<Rightarrow> - 1 | Some n \<Rightarrow> int n)"

definition trackNeedsTitleFix :: "audioInfo list \<Rightarrow> track \<Rightarrow> bool" where
  "trackNeedsTitleFix infos ot =
     (let srcIdx = parseAudioIndexFromSource (source ot) in
      srcIdx \<ge> 0 \<and> nat srcIdx < length infos \<and> a_title (infos ! nat srcIdx) \<noteq> t_title ot)"

definition tracksNeedReorder :: "track list \<Rightarrow> bool" where
  "tracksNeedReorder ots =
     list_ex (\<lambda>(n, ot). source ot \<noteq> Some n) (zip [0 ..< length ots] ots)"

record planning =
  outputAudio :: "track list"
  originalTracks :: "track list"
  planNeedsDDP :: bool
  planNeedsStereo :: bool
  needsReorder :: bool
  needsTitleFix :: bool
  noOpRequired :: bool

text \<open>The planning part of the plugin: \<open>None\<close> when there is no audio stream. The two
  checks run only when no new track is needed; \<open>noOpRequired\<close> is the early return
  ``No processing needed''.\<close>

definition planAudio :: "policy \<Rightarrow> stream list \<Rightarrow> planning option" where
  "planAudio pol streams =
     (let an = analyse pol streams in
      if audioStreams an = [] then None
      else (let out = titleLoop (defaultLanguage pol) []
                        (orderOutputAudio pol (buildOutputAudio pol an));
                ots = filter (\<lambda>t. \<not> isNew t) out;
                quiet = (\<not> needsDDP pol an \<and> \<not> needsStereo pol an);
                fixTitle = (quiet \<and> list_ex (trackNeedsTitleFix (audioStreams an)) ots);
                reorder = (quiet \<and> tracksNeedReorder ots)
            in Some \<lparr>outputAudio = out, originalTracks = ots,
                     planNeedsDDP = needsDDP pol an, planNeedsStereo = needsStereo pol an,
                     needsReorder = reorder, needsTitleFix = fixTitle,
                     noOpRequired = (quiet \<and> \<not> reorder \<and> \<not> fixTitle)\<rparr>))"

text \<open>The streams of the file the transcoder writes from a plan, as the argument list
  describes them: video first, the audio tracks in plan order, then subtitles and
  attachments. A copied track keeps its source stream and gets the new title and language;
  a new track has the codec and channel count of its directive; the first audio track is
  the only default one.\<close>

definition producedAudio :: "policy \<Rightarrow> stream list \<Rightarrow> nat \<Rightarrow> track \<Rightarrow> stream" where
  "producedAudio pol audio p t =
     (let meta = (\<lambda>s. s\<lparr>tags_title := t_title t,
                         tags_language := orElse (t_language t) (defaultLanguage pol),
                         disposition_default := JNumber (if p = 0 then 1 else 0)\<rparr>);
          fresh = \<lparr>codec_type = ''audio'', codec_name = t_codec t, channels = t_channels t,
                   tags_language = [], tags_title = [], profile = [], channel_layout = [],
                   disposition_default = JUndefined\<rparr>
      in if t_codec t = ''copy''
         then (case source t of
                 Some n \<Rightarrow> if n < length audio then meta (audio ! n) else meta fresh
               | None \<Rightarrow> meta fresh)
         else meta fresh)"

definition producedStreams :: "policy \<Rightarrow> stream list \<Rightarrow> track list \<Rightarrow> stream list" where
  "producedStreams pol streams plan =
     filter (\<lambda>s. codec_type s = ''video'') streams @
     map (\<lambda>(p, t). producedAudio pol (filter isAudio streams) p t) (zip [0 ..< length plan] plan) @
     filter (\<lambda>s. codec_type s = ''subtitle'') streams @
     filter (\<lambda>s. codec_type s = ''attachment'') streams"

text \<open>One pass on a file's streams: the streams afterwards (unchanged when nothing is to
  be done or there is no audio) and whether the pass found nothing to do.\<close>

definition passStreams :: "policy \<Rightarrow> stream list \<Rightarrow> stream list" where
  "passStreams pol streams =
     (case planAudio pol streams of
        None \<Rightarrow> streams
      | Some pl \<Rightarrow> if noOpRequired pl then streams
                   else producedStreams pol streams (outputAudio pl))"

definition passIsNoOp :: "policy \<Rightarrow> stream list \<Rightarrow> bool" where
  "passIsNoOp pol streams =
     (case planAudio pol streams of None \<Rightarrow> False | Some pl \<Rightarrow> noOpRequired pl)"

section \<open>Process Audio Complete, the revision that replaces the file itself\<close>

text \<open>The second revision of the plugin in the sources runs the transcoder synchronously and
  swaps the file in. Its analysis differs: the language normalizer knows four aliases, and
  the stereo decision looks at any multichannel stream.\<close>

definition normalizeLangCodeSync :: "string \<Rightarrow> string" where
  "normalizeLangCodeSync code =
     (if code = [] then ''und''
      else (let c = toLowerCase code in
            if c = ''fra'' then ''fre''
            else if c = ''deu'' then ''ger''
            else if c = ''zho'' then ''chi''
            else if c = ''nld'' then ''dut''
            else c))"

record analysisSync =
  sy_audioStreams :: "audioInfo list"
  sy_hasDTS :: bool
  sy_hasMultichannel :: bool
  sy_hasEnglishStereo :: bool
  sy_mainAudioChannels :: "int option"
  sy_mainAudioLang :: string

definition analysisSyncInit :: "policy \<Rightarrow> analysisSync" where
  "analysisSyncInit pol =
     \<lparr>sy_audioStreams = [], sy_hasDTS = False, sy_hasMultichannel = False,
      sy_hasEnglishStereo = False, sy_mainAudioChannels = Some 0,
      sy_mainAudioLang = defaultLanguage pol\<rparr>"

definition analyseStepSync :: "policy \<Rightarrow> analysisSync \<Rightarrow> stream \<Rightarrow> analysisSync" where
  "analyseStepSync pol st s =
     (if codec_type s = ''audio'' then
        (let lang = tags_language s;
             nl = normalizeLangCodeSync lang;
             cl = toLowerCase (codec_name s);
             st1 = st\<lparr>sy_audioStreams := sy_audioStreams st @
                      [\<lparr>audioIndex = length (sy_audioStreams st), codec = codec_name s,
                        codecLower = cl, a_channels = channels s, a_language = lang,
                        normLang = nl, a_profile = profile s, a_title = tags_title s,
                        isDefault = isDefaultStrict s\<rparr>]\<rparr>;
             st2 = (if cl = ''dts'' \<or> cl = ''dca'' then st1\<lparr>sy_hasDTS := True\<rparr> else st1);
             st3 = (if channelsAbove2 (channels s) then st2\<lparr>sy_hasMultichannel := True\<rparr> else st2);
             st4 = (if length (sy_audioStreams st3) = 1 \<or> isDefaultStrict s
                    then st3\<lparr>sy_mainAudioChannels := channels s,
                             sy_mainAudioLang := orElse nl (defaultLanguage pol)\<rparr>
                    else st3)
         in if channels s = Some 2 \<and> (nl = ''eng'' \<or> nl = ''en'' \<or> lang = [] \<or> lang = ''und'')
            then st4\<lparr>sy_hasEnglishStereo := True\<rparr> else st4)
      else st)"

definition analyseSync :: "policy \<Rightarrow> stream list \<Rightarrow> analysisSync" where
  "analyseSync pol streams = foldl (analyseStepSync pol) (analysisSyncInit pol) streams"

definition needsStereoSync :: "policy \<Rightarrow> analysisSync \<Rightarrow> bool" where
  "needsStereoSync pol an =
     (createStereo pol \<and> sy_hasMultichannel an \<and> \<not> sy_hasEnglishStereo an)"

definition langRankSync :: "string list \<Rightarrow> track \<Rightarrow> int" where
  "langRankSync prio t =
     (let idx = indexOf prio (normalizeLangCodeSync (t_language t)) in
      if idx = - 1 then 999 else idx)"

definition compareTracksSync :: "policy \<Rightarrow> track \<Rightarrow> track \<Rightarrow> int" where
  "compareTracksSync pol a b =
     (let aLangIdx = langRankSync (languagePriority pol) a;
          bLangIdx = langRankSync (languagePriority pol) b
      in if aLangIdx \<noteq> bLangIdx then aLangIdx - bLangIdx
         else codecRank (codecPriority pol) a - codecRank (codecPriority pol) b)"

definition orderOutputAudioSync :: "policy \<Rightarrow> track list \<Rightarrow> track list" where
  "orderOutputAudioSync pol out =
     filter isDDP out @ jsSort (compareTracksSync pol) (filter (\<lambda>t. \<not> isNew t) out) @
     filter isStereo out"

section \<open>Normalize Audio Titles\<close>

definition LANGUAGE_MAP_titles :: "(string \<times> string) list" where
  "LANGUAGE_MAP_titles =
     [(''eng'', ''English''), (''en'', ''English''),
      (''fre'', ''French''), (''fra'', ''French''), (''fr'', ''French''),
      (''spa'', ''Spanish''), (''es'', ''Spanish''),
      (''ger'', ''German''), (''deu'', ''German''), (''de'', ''German''),
      (''ita'', ''Italian''), (''it'', ''Italian''),
      (''jpn'', ''Japanese''), (''ja'', ''Japanese''),
      (''por'', ''Portuguese''), (''pt'', ''Portuguese''),
      (''rus'', ''Russian''), (''ru'', ''Russian''),
      (''chi'', ''Chinese''), (''zho'', ''Chinese''), (''zh'', ''Chinese''),
      (''kor'', ''Korean''), (''ko'', ''Korean''),
      (''ara'', ''Arabic''), (''ar'', ''Arabic''),
      (''hin'', ''Hindi''), (''hi'', ''Hindi''),
      (''pol'', ''Polish''), (''pl'', ''Polish''),
      (''dut'', ''Dutch''), (''nld'', ''Dutch''), (''nl'', ''Dutch''),
      (''swe'', ''Swedish''), (''sv'', ''Swedish''),
      (''nor'', ''Norwegian''), (''no'', ''Norwegian''),
      (''dan'', ''Danish''), (''da'', ''Danish''),
      (''fin'', ''Finnish''), (''fi'', ''Finnish''),
      (''tha'', ''Thai''), (''th'', ''Thai''),
      (''vie'', ''Vietnamese''), (''vi'', ''Vietnamese''),
      (''tur'', ''Turkish''), (''tr'', ''Turkish''),
      (''heb'', ''Hebrew''), (''he'', ''Hebrew''),
      (''ind'', ''Indonesian''), (''id'', ''Indonesian''),
      (''may'', ''Malay''), (''msa'', ''Malay''), (''ms'', ''Malay''),
      (''hun'', ''Hungarian''), (''hu'', ''Hungarian''),
      (''cze'', ''Czech''), (''ces'', ''Czech''), (''cs'', ''Czech''),
      (''gre'', ''Greek''), (''ell'', ''Greek''), (''el'', ''Greek''),
      (''ron'', ''Romanian''), (''rum'', ''Romanian''), (''ro'', ''Romanian''),
      (''ukr'', ''Ukrainian''), (''uk'', ''Ukrainian'')]"

definition getLanguageNameTitles :: "string \<Rightarrow> string \<Rightarrow> string" where
  "getLanguageNameTitles code defaultLang =
     (if code = [] \<or> code = ''und'' \<or> code = ''unk''
      then (case map_of LANGUAGE_MAP_titles defaultLang of Some n \<Rightarrow> n | None \<Rightarrow> ''Unknown'')
      else (case map_of LANGUAGE_MAP_titles (toLowerCase code) of
              Some n \<Rightarrow> n
            | None \<Rightarrow> upperChar (hd code) # toLowerCase (tl code)))"

definition getCodecDisplayNameTitles :: "string \<Rightarrow> string \<Rightarrow> string" where
  "getCodecDisplayNameTitles codecName profileText =
     (let codec = toLowerCase codecName; prof = toLowerCase profileText in
      if codec = ''eac3'' then
        (if hasSubstring prof ''joc'' \<or> hasSubstring prof ''atmos'' then ''DD+ Atmos'' else ''DD+'')
      else if codec = ''ac3'' then ''DD''
      else if codec = ''dts'' \<or> codec = ''dca'' then
        (if hasSubstring prof ''ma'' \<or> hasSubstring prof ''master'' then ''DTS-HD MA''
         else if hasSubstring prof ''hra'' \<or> hasSubstring prof ''high res'' then ''DTS-HD HRA''
         else if hasSubstring prof ''x'' \<and> \<not> hasSubstring prof ''express'' then ''DTS:X''
         else if hasSubstring prof ''es'' then ''DTS-ES''
         else ''DTS'')
      else if codec = ''truehd'' then
        (if hasSubstring prof ''atmos'' then ''TrueHD Atmos'' else ''TrueHD'')
      else if codec = ''aac'' then ''AAC''
      else if codec = ''flac'' then ''FLAC''
      else if codec = ''opus'' then ''Opus''
      else if codec = ''mp3'' then ''MP3''
      else if hasSubstring codec ''pcm'' then ''PCM''
      else if codec = ''vorbis'' then ''Vorbis''
      else if hasSubstring codec ''wma'' then ''WMA''
      else toUpperCase codec)"

definition getChannelDisplayTitles :: "int option \<Rightarrow> string \<Rightarrow> string \<Rightarrow> string" where
  "getChannelDisplayTitles ch profileText channelLayout =
     (let prof = toLowerCase profileText; layout = toLowerCase channelLayout in
      if hasSubstring prof ''joc'' \<or> hasSubstring prof ''atmos'' then ''Atmos''
      else if hasSubstring layout ''atmos'' then ''Atmos''
      else if ch = Some 8 then ''7.1''
      else if ch = Some 7 then ''6.1''
      else if ch = Some 6 then ''5.1''
      else if ch = Some 5 then ''5.0''
      else if ch = Some 4 then ''4.0''
      else if ch = Some 3 then ''3.0''
      else if ch = Some 2 then ''Stereo''
      else if ch = Some 1 then ''Mono''
      else showChannels ch @ ''ch'')"

definition detectDescriptor :: "string \<Rightarrow> string" where
  "detectDescriptor existingTitle =
     (if existingTitle = [] then []
      else (let lower = toLowerCase existingTitle in
            if hasSubstring lower ''commentary'' then ''Commentary''
            else if hasSubstring lower ''descriptive'' \<or> hasSubstring lower ''described'' \<or>
                    hasSubstring lower ''audio description'' \<or> lower = ''ad'' then ''Descriptive''
            else if hasSubstring lower ''director'' then ''Directors Commentary''
            else []))"

definition isValidLanguage :: "string \<Rightarrow> bool" where
  "isValidLanguage code =
     (if code = [] then False
      else (let lower = toLowerCase code in lower \<noteq> ''und'' \<and> lower \<noteq> ''unk'' \<and> lower \<noteq> []))"

text \<open>First pass: the language of the first audio stream that has a valid one.\<close>

fun inheritedLanguage :: "string \<Rightarrow> stream list \<Rightarrow> string" where
  "inheritedLanguage dl [] = dl"
| "inheritedLanguage dl (s # rest) =
     (if codec_type s = ''audio'' \<and> isValidLanguage (tags_language s) then tags_language s
      else inheritedLanguage dl rest)"

definition langKeyOf :: "string \<Rightarrow> string" where
  "langKeyOf langCode =
     (let k = langCode;
          k = (if langCode = ''fra'' then ''fre'' else k);
          k = (if langCode = ''deu'' then ''ger'' else k);
          k = (if langCode = ''zho'' then ''chi'' else k);
          k = (if langCode = ''ces'' then ''cze'' else k);
          k = (if langCode = ''nld'' then ''dut'' else k);
          k = (if langCode = ''ell'' then ''gre'' else k);
          k = (if langCode = ''msa'' then ''may'' else k);
          k = (if langCode = ''ron'' then ''rum'' else k)
      in k)"

text \<open>An entry of \<open>audioMetadata\<close>. The last three fields are not properties of the
  JavaScript object: they record the loop's \<open>langKey\<close>, \<open>isOriginal\<close> (as it stands when
  \<open>'Original'\<close> is pushed into \<open>titleParts\<close>) and \<open>descriptor\<close> for the entry.\<close>

record audioMeta =
  m_index :: nat
  m_title :: string
  m_language :: string
  originalTitle :: string
  m_langKey :: string
  m_isOriginal :: bool
  m_descriptor :: string

definition effectiveLanguage :: "string \<Rightarrow> stream \<Rightarrow> string" where
  "effectiveLanguage inherited s =
     (let streamLang = tags_language s in
      if isValidLanguage streamLang then streamLang else inherited)"

definition streamLangKey :: "string \<Rightarrow> stream \<Rightarrow> string" where
  "streamLangKey inherited s = langKeyOf (toLowerCase (effectiveLanguage inherited s))"

text \<open>One turn of the second pass for the audio stream \<open>s\<close>.\<close>

definition metaEntry :: "string \<Rightarrow> string \<Rightarrow> string list \<Rightarrow> nat \<Rightarrow> stream \<Rightarrow> audioMeta" where
  "metaEntry dl inherited seen idx s =
     (let effectiveLang = effectiveLanguage inherited s;
          langKey = streamLangKey inherited s;
          isOriginal = (langKey \<notin> set seen);
          existingTitle = tags_title s;
          descriptor = detectDescriptor existingTitle;
          isOriginal = (if descriptor \<noteq> [] then False else isOriginal);
          languageName = getLanguageNameTitles effectiveLang dl;
          codecName = getCodecDisplayNameTitles (codec_name s) (profile s);
          channelDisplay = getChannelDisplayTitles (channels s) (profile s) (channel_layout s);
          channelDisplay =
            (if hasSubstring codecName ''Atmos'' \<and> channelDisplay = ''Atmos''
             then (if channels s = Some 8 then ''7.1''
                   else if channels s = Some 6 then ''5.1''
                   else showChannels (channels s) @ ''ch'')
             else channelDisplay);
          titleParts = [languageName] @ (if isOriginal then [''Original''] else []) @
                       (if descriptor \<noteq> [] then [descriptor] else [])
      in \<lparr>m_index = idx,
          m_title = joinWith '' '' titleParts @ '' - '' @ codecName @ '' - '' @ channelDisplay,
          m_language = effectiveLang, originalTitle = existingTitle,
          m_langKey = langKey, m_isOriginal = isOriginal, m_descriptor = descriptor\<rparr>)"

fun metadataLoop :: "string \<Rightarrow> string \<Rightarrow> string list \<Rightarrow> nat \<Rightarrow> stream list \<Rightarrow> audioMeta list" where
  "metadataLoop dl inherited seen idx [] = []"
| "metadataLoop dl inherited seen idx (s # rest) =
     (if codec_type s \<noteq> ''audio'' then metadataLoop dl inherited seen idx rest
      else metaEntry dl inherited seen idx s #
           metadataLoop dl inherited (streamLangKey inherited s # seen) (idx + 1) rest)"

definition audioMetadata :: "string \<Rightarrow> stream list \<Rightarrow> audioMeta list" where
  "audioMetadata dl streams = metadataLoop dl (inheritedLanguage dl streams) [] 0 streams"

definition needsUpdate :: "audioMeta list \<Rightarrow> bool" where
  "needsUpdate metas = list_ex (\<lambda>m. m_title m \<noteq> originalTitle m) metas"

text \<open>A secondary-audio marker in a title, as the claim names them: commentary,
  descriptive, director (commentary), in any letter case.\<close>

definition hasSecondaryMarker :: "string \<Rightarrow> bool" where
  "hasSecondaryMarker t =
     (hasSubstring (toLowerCase t) ''commentary'' \<or> hasSubstring (toLowerCase t) ''descriptive'' \<or>
      hasSubstring (toLowerCase t) ''director'')"

section \<open>Check Main Audio Stream Channels\<close>

text \<open>\<open>args.inputFileObj.ffProbeData\<close>: absent, with a \<open>streams\<close> that is no array, or with
  the stream list.\<close>

datatype probe = NoProbeData | StreamsNotArray | Streams "stream list"

definition truthy :: "js_value \<Rightarrow> bool" where
  "truthy v =
     (case v of
        JString s \<Rightarrow> s \<noteq> []
      | JNumber n \<Rightarrow> n \<noteq> 0
      | JBoolean b \<Rightarrow> b
      | JUndefined \<Rightarrow> False
      | JNull \<Rightarrow> False)"

definition jsString :: "js_value \<Rightarrow> string" where
  "jsString v =
     (case v of
        JString s \<Rightarrow> s
      | JNumber n \<Rightarrow> showInt n
      | JBoolean b \<Rightarrow> (if b then ''true'' else ''false'')
      | JUndefined \<Rightarrow> ''undefined''
      | JNull \<Rightarrow> ''null'')"

definition validConditions :: "string list" where
  "validConditions = [''stereo'', ''multichannel'', ''mono'']"

text \<open>The plugin's result: the output number and the \<open>ERROR\<close> lines it logs (the other
  log lines are left out).\<close>

record checkResult =
  outputNumber :: nat
  errorLog :: "string list"

definition checkMainAudioChannels :: "js_value \<Rightarrow> probe \<Rightarrow> checkResult" where
  "checkMainAudioChannels conditionInput probeData =
     (let condition = jsString (if truthy conditionInput then conditionInput
                                else JString ''multichannel'')
      in if indexOf validConditions condition = - 1 then
           \<lparr>outputNumber = 2,
            errorLog = [''ERROR: Invalid condition '' @ [CHR 0x22] @ condition @ [CHR 0x22] @
                        '', must be stereo/multichannel/mono'']\<rparr>
         else (case probeData of
           NoProbeData \<Rightarrow> \<lparr>outputNumber = 2, errorLog = [''ERROR: No ffprobe data available'']\<rparr>
         | StreamsNotArray \<Rightarrow>
             \<lparr>outputNumber = 2, errorLog = [''ERROR: ffprobe streams is not an array'']\<rparr>
         | Streams streams \<Rightarrow>
             (case checkTargetAudio streams of
                None \<Rightarrow> \<lparr>outputNumber = 2, errorLog = []\<rparr>
              | Some (idx, target) \<Rightarrow>
                  (case channels target of
                     None \<Rightarrow>
                       \<lparr>outputNumber = 2,
                        errorLog = [''ERROR: Invalid channel count in audio stream: undefined'']\<rparr>
                   | Some ch \<Rightarrow>
                       if ch < 0 then
                         \<lparr>outputNumber = 2,
                          errorLog = [''ERROR: Invalid channel count in audio stream: '' @ showInt ch]\<rparr>
                       else (let matches =
                                   (if condition = ''stereo'' then ch = 2
                                    else if condition = ''multichannel'' then ch > 2
                                    else ch = 1)
                             in \<lparr>outputNumber = (if matches then 1 else 2), errorLog = []\<rparr>)))))"

section \<open>The file system and the clock\<close>

text \<open>A file has a modification time, a size and its bytes; equal \<open>content\<close> numbers stand
  for equal bytes. The file system maps a path to the file there. \<open>clock\<close> is what
  \<open>Date.now()\<close> returns; in the model only sleeping takes time.\<close>

record diskFile =
  mtimeMs :: int
  size :: int
  content :: nat

record world =
  clock :: int
  files :: "string \<Rightarrow> diskFile option"

text \<open>Each operation of \<open>fs\<close> can throw. Whether it does is an input of the model, as is
  what a failed copy leaves at its destination. An operation returns whether it threw and
  the world after it; renaming or unlinking a missing file always throws.\<close>

datatype copyFault = CopyOk | CopyFailsClean | CopyFailsPartial diskFile

definition renameSync :: "bool \<Rightarrow> string \<Rightarrow> string \<Rightarrow> world \<Rightarrow> bool \<times> world" where
  "renameSync fails src dst w =
     (if fails \<or> files w src = None then (True, w)
      else (False, w\<lparr>files := (files w)(dst := files w src, src := None)\<rparr>))"

definition unlinkSync :: "bool \<Rightarrow> string \<Rightarrow> world \<Rightarrow> bool \<times> world" where
  "unlinkSync fails p w =
     (if fails \<or> files w p = None then (True, w)
      else (False, w\<lparr>files := (files w)(p := None)\<rparr>))"

definition copyFileSync :: "copyFault \<Rightarrow> string \<Rightarrow> string \<Rightarrow> world \<Rightarrow> bool \<times> world" where
  "copyFileSync fault src dst w =
     (case files w src of
        None \<Rightarrow> (True, w)
      | Some f \<Rightarrow>
          (case fault of
             CopyOk \<Rightarrow> (False, w\<lparr>files := (files w)(dst \<mapsto> f\<lparr>mtimeMs := clock w\<rparr>)\<rparr>)
           | CopyFailsClean \<Rightarrow> (True, w)
           | CopyFailsPartial part \<Rightarrow> (True, w\<lparr>files := (files w)(dst \<mapsto> part)\<rparr>)))"

text \<open>\<open>safeUnlink\<close> and \<open>releaseLock\<close> of createStereoDownmix swallow every error.\<close>

definition safeUnlink :: "bool \<Rightarrow> string \<Rightarrow> world \<Rightarrow> world" where
  "safeUnlink fails p w = (if files w p \<noteq> None then snd (unlinkSync fails p w) else w)"

definition releaseLock :: "bool \<Rightarrow> string \<Rightarrow> world \<Rightarrow> world" where
  "releaseLock fails lockFile w = snd (unlinkSync fails lockFile w)"

text \<open>The paths of one pass and the faults of its file operations, one per call site.\<close>

record paths =
  inputFile :: string
  tempFile :: string
  backupFile :: string
  lockFile :: string

record faults =
  backupRenameFails :: bool
  swapRenameFails :: bool
  copyOutcome :: copyFault
  tempUnlinkFails :: bool
  backupUnlinkFails :: bool
  partialUnlinkFails :: bool
  restoreRenameFails :: bool
  cleanupUnlinkFails :: bool
  releaseFails :: bool

record commitResult =
  commitOutput :: nat
  commitLog :: "string list"
  commitWorld :: world

section \<open>The file replacement of the three plugins\<close>

text \<open>Moving the temporary file to the original's place: rename, and copy then delete when
  the rename throws. Returns whether the move threw.\<close>

definition moveTemp :: "faults \<Rightarrow> paths \<Rightarrow> world \<Rightarrow> bool \<times> world" where
  "moveTemp ft ps w =
     (case renameSync (swapRenameFails ft) (tempFile ps) (inputFile ps) w of
        (False, w1) \<Rightarrow> (False, w1)
      | (True, w1) \<Rightarrow>
          (case copyFileSync (copyOutcome ft) (tempFile ps) (inputFile ps) w1 of
             (True, w2) \<Rightarrow> (True, w2)
           | (False, w2) \<Rightarrow> unlinkSync (tempUnlinkFails ft) (tempFile ps) w2))"

text \<open>createStereoDownmix: \<open>cleanup(2)\<close> releases the lock and unlinks what is still in
  \<open>filesToCleanup\<close>.\<close>

fun cleanupFiles :: "bool \<Rightarrow> string list \<Rightarrow> world \<Rightarrow> world" where
  "cleanupFiles fails [] w = w"
| "cleanupFiles fails (p # rest) w = cleanupFiles fails rest (safeUnlink fails p w)"

definition cleanup :: "faults \<Rightarrow> paths \<Rightarrow> string list \<Rightarrow> nat \<Rightarrow> string list \<Rightarrow> world \<Rightarrow> commitResult" where
  "cleanup ft ps filesToCleanup exitCode logged w =
     \<lparr>commitOutput = exitCode, commitLog = logged,
      commitWorld = cleanupFiles (cleanupUnlinkFails ft) filesToCleanup
                      (releaseLock (releaseFails ft) (lockFile ps) w)\<rparr>"

text \<open>createStereoDownmix, from ``Performing file replacement'' to the plugin's return.\<close>

definition replaceStereoDownmix :: "faults \<Rightarrow> paths \<Rightarrow> world \<Rightarrow> commitResult" where
  "replaceStereoDownmix ft ps w =
     (case renameSync (backupRenameFails ft) (inputFile ps) (backupFile ps) w of
        (True, w1) \<Rightarrow> cleanup ft ps [tempFile ps] 2 [''ERROR creating backup''] w1
      | (False, w1) \<Rightarrow>
          (case moveTemp ft ps w1 of
             (False, w2) \<Rightarrow>
               \<lparr>commitOutput = 1, commitLog = [''SUCCESS: Stereo downmix track added''],
                commitWorld = releaseLock (releaseFails ft) (lockFile ps)
                                (safeUnlink (backupUnlinkFails ft) (backupFile ps) w2)\<rparr>
           | (True, w2) \<Rightarrow>
               (let w3 = safeUnlink (partialUnlinkFails ft) (inputFile ps) w2 in
                case renameSync (restoreRenameFails ft) (backupFile ps) (inputFile ps) w3 of
                  (False, w4) \<Rightarrow>
                    cleanup ft ps [tempFile ps] 2
                      [''ERROR during move'', ''Restored original from backup''] w4
                | (True, w4) \<Rightarrow>
                    cleanup ft ps [tempFile ps] 2
                      [''ERROR during move'', ''CRITICAL: Restore failed''] w4)))"

text \<open>Normalize Audio Titles, from ``Replace original with temp'' to the return.\<close>

definition replaceNormalizeTitles :: "faults \<Rightarrow> paths \<Rightarrow> world \<Rightarrow> commitResult" where
  "replaceNormalizeTitles ft ps w =
     (case renameSync (backupRenameFails ft) (inputFile ps) (backupFile ps) w of
        (True, w1) \<Rightarrow>
          \<lparr>commitOutput = 2, commitLog = [''ERROR creating backup''],
           commitWorld = snd (unlinkSync (cleanupUnlinkFails ft) (tempFile ps) w1)\<rparr>
      | (False, w1) \<Rightarrow>
          (case (case moveTemp ft ps w1 of
                   (True, w2) \<Rightarrow> (True, w2)
                 | (False, w2) \<Rightarrow> unlinkSync (backupUnlinkFails ft) (backupFile ps) w2) of
             (False, w3) \<Rightarrow>
               \<lparr>commitOutput = 1, commitLog = [''SUCCESS: Audio titles normalized''],
                commitWorld = w3\<rparr>
           | (True, w3) \<Rightarrow>
               (case renameSync (restoreRenameFails ft) (backupFile ps) (inputFile ps) w3 of
                  (False, w4) \<Rightarrow>
                    \<lparr>commitOutput = 2, commitLog = [''ERROR moving file''],
                     commitWorld = snd (unlinkSync (cleanupUnlinkFails ft) (tempFile ps) w4)\<rparr>
                | (True, w4) \<Rightarrow>
                    \<lparr>commitOutput = 2,
                     commitLog = [''ERROR moving file'', ''CRITICAL: Could not restore backup''],
                     commitWorld = snd (unlinkSync (cleanupUnlinkFails ft) (tempFile ps) w4)\<rparr>)))"

text \<open>Process Audio Complete (the revision that replaces the file itself), from ``Replace
  original'' to the return. A failed restore is not logged.\<close>

definition replaceProcessAudio :: "faults \<Rightarrow> paths \<Rightarrow> world \<Rightarrow> commitResult" where
  "replaceProcessAudio ft ps w =
     (case renameSync (backupRenameFails ft) (inputFile ps) (backupFile ps) w of
        (True, w1) \<Rightarrow>
          \<lparr>commitOutput = 2, commitLog = [''ERROR creating backup''],
           commitWorld = snd (unlinkSync (cleanupUnlinkFails ft) (tempFile ps) w1)\<rparr>
      | (False, w1) \<Rightarrow>
          (case (case moveTemp ft ps w1 of
                   (True, w2) \<Rightarrow> (True, w2)
                 | (False, w2) \<Rightarrow> unlinkSync (backupUnlinkFails ft) (backupFile ps) w2) of
             (False, w3) \<Rightarrow>
               \<lparr>commitOutput = 1, commitLog = [''SUCCESS: File processed and replaced''],
                commitWorld = w3\<rparr>
           | (True, w3) \<Rightarrow>
               (let w4 = snd (renameSync (restoreRenameFails ft) (backupFile ps) (inputFile ps) w3)
                in \<lparr>commitOutput = 2, commitLog = [''ERROR moving file''],
                    commitWorld = snd (unlinkSync (cleanupUnlinkFails ft) (tempFile ps) w4)\<rparr>)))"

section \<open>createStereoDownmix: the lock\<close>

text \<open>What the surroundings do during one turn of the acquisition loop: whether the
  holder of the marker removes it (before the turn's write, or between the write and the
  \<open>stat\<close>), whether the write fails with an error other than \<open>EEXIST\<close>, whether unlinking
  a stale marker fails, and how long the \<open>sleep 0.5\<close> process would run. The loop ends
  when the list of turns is used up: the result is then \<open>None\<close>.\<close>

datatype holderAction = KeepsMarker | ReleasesBeforeWrite | ReleasesBeforeStat

record lockTurn =
  holder :: holderAction
  writeDenied :: bool
  staleUnlinkFails :: bool
  sleepTakes :: int

definition staleAfterMs :: int where
  "staleAfterMs = 2 * 60 * 60 * 1000"

text \<open>\<open>spawnSync('sleep', ['0.5'], { timeout: 2000 })\<close>: the child is killed after two
  seconds.\<close>

definition sleepHalfSecond :: "int \<Rightarrow> world \<Rightarrow> world" where
  "sleepHalfSecond takes w = w\<lparr>clock := clock w + min takes 2000\<rparr>"

definition lockMarker :: "world \<Rightarrow> diskFile" where
  "lockMarker w = \<lparr>mtimeMs = clock w, size = 0, content = 0\<rparr>"

fun acquireLoop :: "string \<Rightarrow> int \<Rightarrow> int \<Rightarrow> lockTurn list \<Rightarrow> world \<Rightarrow> bool option \<times> world" where
  "acquireLoop lockPath timeoutMs start [] w =
     (if clock w - start < timeoutMs then (None, w) else (Some False, w))"
| "acquireLoop lockPath timeoutMs start (turn # turns) w =
     (if \<not> (clock w - start < timeoutMs) then (Some False, w)
      else (let w1 = (if holder turn = ReleasesBeforeWrite
                      then w\<lparr>files := (files w)(lockPath := None)\<rparr> else w)
            in if writeDenied turn then (Some False, w1)
               else (case files w1 lockPath of
                 None \<Rightarrow> (Some True, w1\<lparr>files := (files w1)(lockPath \<mapsto> lockMarker w1)\<rparr>)
               | Some marker \<Rightarrow>
                   if holder turn = ReleasesBeforeStat
                   then acquireLoop lockPath timeoutMs start turns
                          (w1\<lparr>files := (files w1)(lockPath := None)\<rparr>)
                   else if clock w1 - mtimeMs marker > staleAfterMs
                   then acquireLoop lockPath timeoutMs start turns
                          (snd (unlinkSync (staleUnlinkFails turn) lockPath w1))
                   else acquireLoop lockPath timeoutMs start turns
                          (sleepHalfSecond (sleepTakes turn) w1))))"

definition acquireLock :: "string \<Rightarrow> int \<Rightarrow> lockTurn list \<Rightarrow> world \<Rightarrow> bool option \<times> world" where
  "acquireLock lockPath timeoutMs turns w = acquireLoop lockPath timeoutMs (clock w) turns w"

section \<open>createStereoDownmix: the pass\<close>

text \<open>What the collaborators of one pass deliver: the probe data, the transcoder's exit
  status and the file it leaves at the temporary path, whether both files can be
  inspected, whether the output passes the size check, and the exit status and last audio
  stream (channel count and codec name) of the probe of the output.\<close>

record collaborators =
  lockTurns :: "lockTurn list"
  probeData :: probe
  ffmpegStatus :: int
  ffmpegOutput :: "diskFile option"
  statFails :: bool
  outputTooSmall :: bool
  verifyStatus :: int
  verifyLastAudio :: "(int option \<times> string) option"
  commitFaults :: faults

text \<open>The filter chain: pan, then loudness normalization, then the limiter.\<close>

definition audioFilter :: "bool \<Rightarrow> int \<Rightarrow> int \<Rightarrow> string \<Rightarrow> string" where
  "audioFilter normalizeOn loudnormTargetValue ch layout =
     getPanFilterLayout ch layout @
     (if normalizeOn then '',loudnorm=I='' @ showInt loudnormTargetValue @ '':TP=-1.5:LRA=11'' else []) @
     '',alimiter=limit=0.95''"

text \<open>The pass from ``Acquiring lock'' on. \<open>None\<close>: the acquisition loop has not come to a
  result within the turns given.\<close>

definition stereoDownmixPass :: "collaborators \<Rightarrow> paths \<Rightarrow> world \<Rightarrow> commitResult option" where
  "stereoDownmixPass env ps w =
     (case acquireLock (lockFile ps) 30000 (lockTurns env) w of
        (None, w1) \<Rightarrow> None
      | (Some False, w1) \<Rightarrow>
          Some \<lparr>commitOutput = 2,
                commitLog = [''ERROR: Could not acquire lock - file may be processed by another worker''],
                commitWorld = w1\<rparr>
      | (Some True, w1) \<Rightarrow>
          Some (let ft = commitFaults env; quit = (\<lambda>msg. cleanup ft ps [tempFile ps] 2 [msg]) in
            case probeData env of
              NoProbeData \<Rightarrow> quit ''ERROR: No ffprobe data available'' w1
            | StreamsNotArray \<Rightarrow> quit ''ERROR: ffprobe streams is not an array'' w1
            | Streams streams \<Rightarrow>
                (case targetAudio streams of
                   None \<Rightarrow> quit ''No audio stream found'' w1
                 | Some (idx, target) \<Rightarrow>
                     (case channels target of
                        None \<Rightarrow> quit ''ERROR: Invalid channel count in audio stream'' w1
                      | Some ch \<Rightarrow>
                          if ch < 1 then quit ''ERROR: Invalid channel count in audio stream'' w1
                          else if ch \<le> 2 then quit ''Audio is already stereo or mono, skipping'' w1
                          else (let w2 = w1\<lparr>files := (files w1)(tempFile ps := ffmpegOutput env)\<rparr> in
                            if ffmpegStatus env \<noteq> 0 then quit ''FFmpeg error'' w2
                            else if statFails env \<or> files w2 (inputFile ps) = None \<or>
                                    files w2 (tempFile ps) = None
                            then quit ''ERROR: Could not stat files'' w2
                            else if outputTooSmall env then quit ''ERROR: Output too small'' w2
                            else if verifyStatus env \<noteq> 0
                            then quit ''ERROR: ffprobe verification failed'' w2
                            else (case verifyLastAudio env of
                                    None \<Rightarrow> quit ''ERROR: Last audio is not stereo'' w2
                                  | Some (lastChannels, lastCodec) \<Rightarrow>
                                      if lastChannels = Some 2 then
                                        (if lastCodec = ''aac'' then replaceStereoDownmix ft ps w2
                                         else quit ''ERROR: Last audio codec is not aac'' w2)
                                      else quit ''ERROR: Last audio is not stereo'' w2))))))"

section \<open>Inputs and the specification's wording\<close>

text \<open>The default values of Process Audio Complete's inputs, and an audio stream as the
  probe reports it.\<close>

definition defaultPolicy :: policy where
  "defaultPolicy =
     \<lparr>createDDP = True, createStereo = True, stereoBitrate = 256, normalize = True,
      loudnormTarget = - 16, languagePriority = [''eng'', ''fre''],
      codecPriority = [''eac3'', ''dts'', ''aac''], defaultLanguage = ''eng''\<rparr>"

definition audioStream :: "string \<Rightarrow> int \<Rightarrow> string \<Rightarrow> string \<Rightarrow> js_value \<Rightarrow> stream" where
  "audioStream codecName ch lang titleTag dispDefault =
     \<lparr>codec_type = ''audio'', codec_name = codecName, channels = Some ch,
      tags_language = lang, tags_title = titleTag, profile = [], channel_layout = [],
      disposition_default = dispDefault\<rparr>"

text \<open>\<open>parseInt(args.inputs.stereoBitrate, 10) || 256\<close> of Process Audio Complete.\<close>

definition parseStereoBitrate :: "js_value \<Rightarrow> int" where
  "parseStereoBitrate x =
     (case parseInt x of None \<Rightarrow> 256 | Some n \<Rightarrow> if n = 0 then 256 else n)"

text \<open>The downmix requirement in the specification's words: the flag is on, the main
  track (first default, else first) has more than two channels, and no audio stream is
  stereo with a language matching the configured default language or with no or an
  undetermined language tag.\<close>

definition needsDownmixSpec :: "policy \<Rightarrow> stream list \<Rightarrow> bool" where
  "needsDownmixSpec pol streams =
     (createStereo pol \<and>
      (case firstDefaultOrFirst isDefaultStrict streams of
         None \<Rightarrow> False
       | Some (i, m) \<Rightarrow> channelsAbove2 (channels m)) \<and>
      \<not> list_ex (\<lambda>s. channels s = Some 2 \<and>
                       (normalizeLangCode (tags_language s) = normalizeLangCode (defaultLanguage pol) \<or>
                        tags_language s = [] \<or> tags_language s = ''und''))
           (filter isAudio streams))"

text \<open>What the code tests instead of the default language: English.\<close>

definition englishOrUntaggedStereo :: "stream \<Rightarrow> bool" where
  "englishOrUntaggedStereo s =
     (channels s = Some 2 \<and>
      (normalizeLangCode (tags_language s) = ''eng'' \<or> tags_language s = [] \<or>
       tags_language s = ''und''))"

text \<open>The rank of a value in a priority list as the specification words it: its first
  position, and the length of the list (after all listed ones) when it is not listed.\<close>

definition rankIn :: "string list \<Rightarrow> string \<Rightarrow> nat" where
  "rankIn prio x = length (takeWhile (\<lambda>y. y \<noteq> x) prio)"

text \<open>The existing (copied) tracks of given language rank and codec rank.\<close>

definition existingOfRank :: "policy \<Rightarrow> nat \<Rightarrow> nat \<Rightarrow> track \<Rightarrow> bool" where
  "existingOfRank pol r c t =
     (\<not> isNew t \<and> rankIn (languagePriority pol) (normalizeLangCode (t_language t)) = r \<and>
      rankIn (codecPriority pol) (toLowerCase (originalCodec t)) = c)"

definition existingOfRankSync :: "policy \<Rightarrow> nat \<Rightarrow> nat \<Rightarrow> track \<Rightarrow> bool" where
  "existingOfRankSync pol r c t =
     (\<not> isNew t \<and> rankIn (languagePriority pol) (normalizeLangCodeSync (t_language t)) = r \<and>
      rankIn (codecPriority pol) (toLowerCase (originalCodec t)) = c)"

text \<open>A track without what the title loop sets.\<close>

definition untitled :: "track \<Rightarrow> track" where
  "untitled t = t\<lparr>t_title := [], markedOriginal := False\<rparr>"

section \<open>Outcomes of the replacement, and a sample pass\<close>

text \<open>The original path holds the transcoder's output: the file itself after a rename, or
  a copy of it written now.\<close>

definition holdsOutput :: "world \<Rightarrow> diskFile \<Rightarrow> diskFile option \<Rightarrow> bool" where
  "holdsOutput w out x = (x = Some out \<or> x = Some (out\<lparr>mtimeMs := clock w\<rparr>))"

text \<open>How a replacement can end: with output 1 and the output at the original path; with
  output 2 and the original at the original path (never moved, or restored); or, when the
  restoring rename fails after a failed swap, with output 2 and the original still at the
  backup path.\<close>

definition commitOutcome :: "faults \<Rightarrow> paths \<Rightarrow> world \<Rightarrow> diskFile \<Rightarrow> diskFile \<Rightarrow> commitResult \<Rightarrow> bool" where
  "commitOutcome ft ps w orig out r =
     (let fin = files (commitWorld r) in
      (commitOutput r = 1 \<and> holdsOutput w out (fin (inputFile ps))) \<or>
      (commitOutput r = 2 \<and> fin (inputFile ps) = Some orig) \<or>
      (commitOutput r = 2 \<and> restoreRenameFails ft \<and> \<not> backupRenameFails ft \<and>
       fin (backupFile ps) = Some orig))"

text \<open>A file, the paths of a pass on it, and collaborators that work without fault while
  another worker holds a fresh lock marker for a minute.\<close>

definition demoPaths :: paths where
  "demoPaths =
     \<lparr>inputFile = ''/media/film.mkv'', tempFile = ''/temp/stereo_1.mkv'',
      backupFile = ''/media/film.mkv.backup_1'',
      lockFile = ''/temp/film.mkv.stereodownmix.lock''\<rparr>"

definition demoOriginal :: diskFile where
  "demoOriginal = \<lparr>mtimeMs = 1000, size = 4000000000, content = 1\<rparr>"

definition demoOutput :: diskFile where
  "demoOutput = \<lparr>mtimeMs = 5000, size = 4100000000, content = 2\<rparr>"

definition demoWorld :: world where
  "demoWorld =
     \<lparr>clock = 6000,
      files = [inputFile demoPaths \<mapsto> demoOriginal, tempFile demoPaths \<mapsto> demoOutput]\<rparr>"

definition noFaults :: faults where
  "noFaults =
     \<lparr>backupRenameFails = False, swapRenameFails = False, copyOutcome = CopyOk,
      tempUnlinkFails = False, backupUnlinkFails = False, partialUnlinkFails = False,
      restoreRenameFails = False, cleanupUnlinkFails = False, releaseFails = False\<rparr>"

definition heldTurn :: lockTurn where
  "heldTurn = \<lparr>holder = KeepsMarker, writeDenied = False, staleUnlinkFails = False, sleepTakes = 500\<rparr>"

definition demoCollaborators :: collaborators where
  "demoCollaborators =
     \<lparr>lockTurns = replicate 60 heldTurn,
      probeData = Streams [audioStream ''dts'' 6 ''eng'' [] (JNumber 1)],
      ffmpegStatus = 0, ffmpegOutput = Some demoOutput, statFails = False,
      outputTooSmall = False, verifyStatus = 0, verifyLastAudio = Some (Some 2, ''aac''),
      commitFaults = noFaults\<rparr>"

definition lockedWorld :: world where
  "lockedWorld =
     \<lparr>clock = 6000,
      files = [inputFile demoPaths \<mapsto> demoOriginal,
               lockFile demoPaths \<mapsto> \<lparr>mtimeMs = 5000, size = 0, content = 0\<rparr>]\<rparr>"


section \<open>The title sanitizer\<close>

lemma collapseSpaces_chars:
  "c \<in> set (collapseSpaces s) \<Longrightarrow> c = CHR '' '' \<or> (c \<in> set s \<and> \<not> isSpace c)"
proof (induction s rule: collapseSpaces.induct)
  case 1
  then show ?case by simp
next
  case (2 d ds)
  then show ?case
    by (auto split: if_splits dest: set_dropWhileD)
qed

lemma trim_subset: "set (trim s) \<subseteq> set s"
proof -
  have "set (trim s) \<subseteq> set (rev (dropWhile isSpace s))"
    unfolding trim_def using set_dropWhileD by fastforce
  also have "\<dots> \<subseteq> set s"
    using set_dropWhileD by fastforce
  finally show ?thesis .
qed

lemma kept_nonspace_titleChar: "keptByTitleRegex c \<Longrightarrow> \<not> isSpace c \<Longrightarrow> titleChar c"
  by (auto simp: keptByTitleRegex_def titleChar_def)

lemma space_titleChar: "titleChar (CHR '' '')"
  by (simp add: titleChar_def)

lemma normalised_chars:
  assumes "c \<in> set (trim (collapseSpaces (filter keptByTitleRegex t)))"
  shows "titleChar c"
proof -
  from assms have "c \<in> set (collapseSpaces (filter keptByTitleRegex t))"
    using trim_subset by blast
  then have "c = CHR '' '' \<or> (c \<in> set (filter keptByTitleRegex t) \<and> \<not> isSpace c)"
    by (rule collapseSpaces_chars)
  then show "titleChar c"
    using kept_nonspace_titleChar space_titleChar by auto
qed

lemma Stereo_chars: "list_all titleChar ''Stereo''"
  by (simp add: titleChar_def isAlnum_def lower_letters_def upper_letters_def digit_chars_def)

lemma titleChar_not_syntax:
  "titleChar c \<Longrightarrow>
   c \<notin> set [CHR ''/'', CHR 0x5C, CHR '':'', CHR '','', CHR '';'', CHR ''['', CHR '']'',
             CHR ''='', CHR ''|'', CHR 0x22, CHR 0x27]"
  by (auto simp: titleChar_def isAlnum_def lower_letters_def upper_letters_def digit_chars_def)

text \<open>
  C10. For every input value, strings and non-strings alike, \<open>sanitizeTrackTitle\<close> returns a
  non-empty string of at most 64 characters, each of them alphanumeric, a space, a hyphen,
  an underscore or a parenthesis (so none is a path separator, a quote or a character of
  the filter syntax), and it returns \<open>Stereo\<close> when the input is not a string or nothing of
  it is left after the forbidden characters are removed and the white space is collapsed
  and trimmed.
\<close>

theorem sanitizeTrackTitle_safe:
  "sanitizeTrackTitle v \<noteq> [] \<and> length (sanitizeTrackTitle v) \<le> 64 \<and>
   list_all titleChar (sanitizeTrackTitle v) \<and>
   list_all (\<lambda>c. c \<notin> set [CHR ''/'', CHR 0x5C, CHR '':'', CHR '','', CHR '';'', CHR ''['',
                           CHR '']'', CHR ''='', CHR ''|'', CHR 0x22, CHR 0x27])
     (sanitizeTrackTitle v) \<and>
   ((\<forall>t. v = JString t \<longrightarrow> trim (collapseSpaces (filter keptByTitleRegex t)) = []) \<longrightarrow>
      sanitizeTrackTitle v = ''Stereo'')"
proof -
  have main: "sanitizeTrackTitle v \<noteq> [] \<and> length (sanitizeTrackTitle v) \<le> 64 \<and>
      list_all titleChar (sanitizeTrackTitle v) \<and>
      ((\<forall>t. v = JString t \<longrightarrow> trim (collapseSpaces (filter keptByTitleRegex t)) = []) \<longrightarrow>
         sanitizeTrackTitle v = ''Stereo'')"
  proof (cases v)
    case (JString t)
    let ?n = "trim (collapseSpaces (filter keptByTitleRegex t))"
    have chars: "list_all titleChar ?n"
      using normalised_chars by (auto simp: list_all_iff)
    have chars64: "list_all titleChar (take 64 ?n)"
      using chars by (auto simp: list_all_iff dest: in_set_takeD)
    show ?thesis
      using JString chars chars64 Stereo_chars
      by (auto simp: sanitizeTrackTitle_def Let_def)
  qed (simp_all add: sanitizeTrackTitle_def Stereo_chars[simplified])
  then have "list_all titleChar (sanitizeTrackTitle v)"
    by blast
  then have "list_all (\<lambda>c. c \<notin> set [CHR ''/'', CHR 0x5C, CHR '':'', CHR '','', CHR '';'', CHR ''['',
                           CHR '']'', CHR ''='', CHR ''|'', CHR 0x22, CHR 0x27])
     (sanitizeTrackTitle v)"
    unfolding list_all_iff using titleChar_not_syntax by blast
  with main show ?thesis
    by blast
qed

theorem sanitizeTrackTitle_safe_witness:
  "sanitizeTrackTitle (JString ''/[:]/ '') = ''Stereo'' \<and>
   sanitizeTrackTitle JUndefined = ''Stereo'' \<and>
   length (sanitizeTrackTitle (JString ''Stereo (Night Mode)'')) \<le> 64 \<and>
   list_all titleChar (sanitizeTrackTitle (JString ''Stereo (Night Mode)''))"
proof -
  have "trim (collapseSpaces (filter keptByTitleRegex ''/[:]/ '')) = []"
    by code_simp
  then have gone: "\<forall>t. JString ''/[:]/ '' = JString t \<longrightarrow>
      trim (collapseSpaces (filter keptByTitleRegex t)) = []"
    by simp
  have "\<forall>t. (JUndefined :: js_value) = JString t \<longrightarrow>
      trim (collapseSpaces (filter keptByTitleRegex t)) = []"
    by simp
  then show ?thesis
    using gone sanitizeTrackTitle_safe [of "JString ''/[:]/ ''"]
      sanitizeTrackTitle_safe [of JUndefined]
      sanitizeTrackTitle_safe [of "JString ''Stereo (Night Mode)''"]
    by blast
qed

section \<open>The downmix filter\<close>

lemma pans_distinct: "distinct [pan71, pan51, pan61, panQuad, panCenter, aformatStereo]"
  by (simp add: pan71_def pan51_def pan61_def panQuad_def panCenter_def aformatStereo_def)

text \<open>
  The claim C7 as stated fails: Process Audio Complete gives seven channels the
  coefficients of six, and createStereoDownmix gives five channels the 5.1 coefficients and
  four channels a quad mix instead of the centre blend, and mixes at two channels instead
  of reformatting.
\<close>

theorem getPanFilter_counterexample:
  "getPanFilter 7 = getPanFilter 6 \<and> getPanFilterLayout 5 [] = pan51 \<and> pan51 \<noteq> panCenter \<and>
   getPanFilterLayout 4 [] = panQuad \<and> panQuad \<noteq> panCenter \<and>
   getPanFilterLayout 2 [] = pan51 \<and> pan51 \<noteq> aformatStereo"
  using pans_distinct
  by (simp add: getPanFilter_def getPanFilterLayout_def toLowerCase_def)

lemma getPanFilter_cases:
  "(ch = 8 \<longrightarrow> getPanFilter ch = pan71) \<and>
   (6 \<le> ch \<and> ch \<noteq> 8 \<longrightarrow> getPanFilter ch = pan51) \<and>
   (2 < ch \<and> ch < 6 \<longrightarrow> getPanFilter ch = panCenter) \<and>
   (ch \<le> 2 \<longrightarrow> getPanFilter ch = aformatStereo)"
  by (simp add: getPanFilter_def)

lemma getPanFilterLayout_cases:
  "layoutSilent l \<Longrightarrow>
      (ch = 6 \<longrightarrow> getPanFilterLayout ch l = pan51) \<and>
      (ch = 8 \<longrightarrow> getPanFilterLayout ch l = pan71) \<and>
      (ch = 7 \<longrightarrow> getPanFilterLayout ch l = pan61) \<and>
      (ch = 4 \<longrightarrow> getPanFilterLayout ch l = panQuad) \<and>
      (ch = 3 \<longrightarrow> getPanFilterLayout ch l = panCenter) \<and>
      (8 < ch \<longrightarrow> getPanFilterLayout ch l = aformatStereo) \<and>
      (ch = 5 \<or> ch \<le> 2 \<longrightarrow> getPanFilterLayout ch l = pan51)"
  by (simp add: getPanFilterLayout_def layoutSilent_def Let_def)

text \<open>
  C7, as amended. Process Audio Complete picks the 7.1 coefficients for eight channels, one
  set of 5.1 coefficients for six, seven and more than eight channels, the centre blend
  for three to five channels, and the plain stereo reformatting for two channels or
  fewer. createStereoDownmix, for a layout string that names no layout, picks coefficients
  of their own for six, eight and seven channels, a quad mix for four, the centre blend for
  three, the plain reformatting above eight, and the 5.1 coefficients for five channels
  and for two or fewer. The six fragments are pairwise different.
\<close>

theorem getPanFilter_selection:
  "(ch = 8 \<longrightarrow> getPanFilter ch = pan71) \<and>
   (6 \<le> ch \<and> ch \<noteq> 8 \<longrightarrow> getPanFilter ch = pan51) \<and>
   (2 < ch \<and> ch < 6 \<longrightarrow> getPanFilter ch = panCenter) \<and>
   (ch \<le> 2 \<longrightarrow> getPanFilter ch = aformatStereo) \<and>
   (layoutSilent l \<longrightarrow>
      (ch = 6 \<longrightarrow> getPanFilterLayout ch l = pan51) \<and>
      (ch = 8 \<longrightarrow> getPanFilterLayout ch l = pan71) \<and>
      (ch = 7 \<longrightarrow> getPanFilterLayout ch l = pan61) \<and>
      (ch = 4 \<longrightarrow> getPanFilterLayout ch l = panQuad) \<and>
      (ch = 3 \<longrightarrow> getPanFilterLayout ch l = panCenter) \<and>
      (8 < ch \<longrightarrow> getPanFilterLayout ch l = aformatStereo) \<and>
      (ch = 5 \<or> ch \<le> 2 \<longrightarrow> getPanFilterLayout ch l = pan51)) \<and>
   distinct [pan71, pan51, pan61, panQuad, panCenter, aformatStereo]"
  using getPanFilter_cases [of ch] getPanFilterLayout_cases [of l ch] pans_distinct
  by blast

theorem getPanFilter_selection_witness:
  "getPanFilter 8 = pan71 \<and> getPanFilter 7 = pan51 \<and> getPanFilter 6 = pan51 \<and>
   getPanFilter 4 = panCenter \<and> getPanFilter 1 = aformatStereo \<and>
   getPanFilterLayout 7 ''hexagonal'' = pan61 \<and> getPanFilterLayout 4 ''hexagonal'' = panQuad \<and>
   getPanFilterLayout 5 ''hexagonal'' = pan51 \<and> getPanFilterLayout 12 ''hexagonal'' = aformatStereo"
proof -
  have silent: "layoutSilent ''hexagonal''"
    by code_simp
  show ?thesis
    using silent getPanFilter_selection [of 8 "''hexagonal''"] getPanFilter_selection [of 7 "''hexagonal''"]
      getPanFilter_selection [of 6 "''hexagonal''"] getPanFilter_selection [of 4 "''hexagonal''"]
      getPanFilter_selection [of 1 "''hexagonal''"] getPanFilter_selection [of 5 "''hexagonal''"]
      getPanFilter_selection [of 12 "''hexagonal''"]
    by simp
qed

section \<open>Policy values\<close>

lemma indexOf_absent: "indexOf xs x = - 1 \<longleftrightarrow> x \<notin> set xs"
proof (induction xs)
  case Nil
  then show ?case by simp
next
  case (Cons y ys)
  have "indexOf ys x \<ge> - 1"
    by (induction ys) (auto simp: Let_def)
  with Cons show ?case
    by (auto simp: Let_def)
qed

text \<open>
  The claim C9 as stated fails: the bitrate 1000 is neither clamped to 512 nor rejected
  but replaced by 192, the loudness target 99 goes into the filter chain as it is, and so
  does the stereo bitrate 99999 into the policy.
\<close>

theorem policy_values_counterexample:
  "validateBitrate (JString ''1000'') = 192 \<and> max 64 (min 512 (1000 :: int)) = 512 \<and>
   parseLoudnormTarget (JString ''99'') = 99 \<and>
   audioFilter True (parseLoudnormTarget (JString ''99'')) 6 [] =
     pan51 @ '',loudnorm=I=99:TP=-1.5:LRA=11,alimiter=limit=0.95'' \<and>
   parseStereoBitrate (JString ''99999'') = 99999"
  by code_simp

text \<open>
  C9, as amended. createStereoDownmix replaces a bitrate that is unreadable or outside
  64..512 by the default 192 and keeps one inside, so the bitrate it uses is always within
  64..512; Check Main Audio Stream Channels rejects a condition other than stereo,
  multichannel and mono with output 2 and an error line; the loudness target and Process
  Audio Complete's stereo bitrate are not range-checked: a non-zero integer that parses is
  used as it is, and an unreadable or zero value gives the default (-16, 256).
\<close>

theorem policy_values_handling:
  "64 \<le> validateBitrate b \<and> validateBitrate b \<le> 512 \<and>
   (\<forall>n. parseInt b = Some n \<and> 64 \<le> n \<and> n \<le> 512 \<longrightarrow> validateBitrate b = n) \<and>
   ((\<forall>n. parseInt b = Some n \<longrightarrow> n < 64 \<or> 512 < n) \<longrightarrow> validateBitrate b = 192) \<and>
   (jsString (if truthy c then c else JString ''multichannel'') \<notin> set validConditions \<longrightarrow>
      outputNumber (checkMainAudioChannels c p) = 2 \<and>
      errorLog (checkMainAudioChannels c p) \<noteq> []) \<and>
   (\<forall>n. parseInt x = Some n \<and> n \<noteq> 0 \<longrightarrow> parseLoudnormTarget x = n \<and> parseStereoBitrate x = n) \<and>
   (parseInt x = None \<or> parseInt x = Some 0 \<longrightarrow>
      parseLoudnormTarget x = - 16 \<and> parseStereoBitrate x = 256)"
proof -
  have bitrate: "64 \<le> validateBitrate b \<and> validateBitrate b \<le> 512 \<and>
     (\<forall>n. parseInt b = Some n \<and> 64 \<le> n \<and> n \<le> 512 \<longrightarrow> validateBitrate b = n) \<and>
     ((\<forall>n. parseInt b = Some n \<longrightarrow> n < 64 \<or> 512 < n) \<longrightarrow> validateBitrate b = 192)"
    by (auto simp: validateBitrate_def split: option.splits)
  have cond: "jsString (if truthy c then c else JString ''multichannel'') \<notin> set validConditions \<longrightarrow>
      outputNumber (checkMainAudioChannels c p) = 2 \<and>
      errorLog (checkMainAudioChannels c p) \<noteq> []"
    using indexOf_absent [of validConditions]
    by (simp add: checkMainAudioChannels_def Let_def)
  have loud: "(\<forall>n. parseInt x = Some n \<and> n \<noteq> 0 \<longrightarrow> parseLoudnormTarget x = n \<and> parseStereoBitrate x = n) \<and>
   (parseInt x = None \<or> parseInt x = Some 0 \<longrightarrow>
      parseLoudnormTarget x = - 16 \<and> parseStereoBitrate x = 256)"
    by (auto simp: parseLoudnormTarget_def parseStereoBitrate_def)
  from bitrate cond loud show ?thesis
    by blast
qed

theorem policy_values_handling_witness:
  "validateBitrate (JString ''256'') = 256 \<and> validateBitrate (JString ''32'') = 192 \<and>
   outputNumber (checkMainAudioChannels (JString ''surround'') NoProbeData) = 2 \<and>
   parseLoudnormTarget (JString ''-23'') = - 23 \<and> parseLoudnormTarget (JString ''loud'') = - 16"
proof -
  have p256: "parseInt (JString ''256'') = Some 256" by code_simp
  have p32: "parseInt (JString ''32'') = Some 32" by code_simp
  have p23: "parseInt (JString ''-23'') = Some (- 23)" by code_simp
  have ploud: "parseInt (JString ''loud'') = None" by code_simp
  have cond: "jsString (if truthy (JString ''surround'') then JString ''surround''
      else JString ''multichannel'') \<notin> set validConditions" by code_simp
  show ?thesis
    using p256 p32 p23 ploud cond
      policy_values_handling [of "JString ''256''" "JString ''surround''" NoProbeData "JString ''-23''"]
      policy_values_handling [of "JString ''32''" "JString ''surround''" NoProbeData "JString ''loud''"]
    by simp
qed

section \<open>The main audio stream\<close>

lemma mainSearch_foldl:
  "foldl mainSearchStep st xs =
     st\<lparr>mainAudio := (case mainAudio st of Some m \<Rightarrow> Some m
                       | None \<Rightarrow> find isDefaultLoose (filter isAudio xs)),
        mainAudioIndex := (case mainAudio st of Some m \<Rightarrow> mainAudioIndex st
                       | None \<Rightarrow> (case find isDefaultLoose (filter isAudio xs) of
                            Some m \<Rightarrow> audioStreamCount st +
                              int (length (takeWhile (\<lambda>s. \<not> isDefaultLoose s) (filter isAudio xs)))
                          | None \<Rightarrow> mainAudioIndex st)),
        firstAudio := (case firstAudio st of Some f \<Rightarrow> Some f
                       | None \<Rightarrow> (case filter isAudio xs of [] \<Rightarrow> None | a # as \<Rightarrow> Some a)),
        firstAudioIndex := (case firstAudio st of Some f \<Rightarrow> firstAudioIndex st
                       | None \<Rightarrow> (case filter isAudio xs of [] \<Rightarrow> firstAudioIndex st
                                   | a # as \<Rightarrow> audioStreamCount st)),
        audioStreamCount := audioStreamCount st + int (length (filter isAudio xs))\<rparr>"
proof (induction xs arbitrary: st)
  case Nil
  then show ?case by (simp split: option.splits)
next
  case (Cons x xs)
  show ?case
  proof (cases "isAudio x")
    case False
    then have "mainSearchStep st x = st"
      by (simp add: mainSearchStep_def isAudio_def)
    with False show ?thesis
      unfolding foldl_Cons Cons.IH by (simp cong: option.case_cong list.case_cong)
  next
    case True
    then have au: "codec_type x = ''audio''"
      by (simp add: isAudio_def)
    from True show ?thesis
      unfolding foldl_Cons Cons.IH
      by (cases "mainAudio st"; cases "firstAudio st"; cases "isDefaultLoose x")
         (simp_all add: mainSearchStep_def au Let_def add.assoc
            cong: option.case_cong list.case_cong)
  qed
qed

lemma targetAudio_spec: "targetAudio streams = firstDefaultOrFirst isDefaultLoose streams"
proof (cases "filter isAudio streams")
  case Nil
  then show ?thesis
    by (simp add: targetAudio_def mainSearchRun_def mainSearch_foldl mainSearchInit_def
        firstDefaultOrFirst_def)
next
  case (Cons a as)
  then show ?thesis
    by (simp add: targetAudio_def mainSearchRun_def mainSearch_foldl mainSearchInit_def
        firstDefaultOrFirst_def split: option.splits)
qed

lemma channelSearch_loop:
  "cs_mainAudio (channelSearchLoop i st xs) =
     (case cs_mainAudio st of Some m \<Rightarrow> Some m
      | None \<Rightarrow> find isDefaultLoose (filter isAudio xs)) \<and>
   cs_mainAudioRelativeIndex (channelSearchLoop i st xs) =
     (case cs_mainAudio st of Some m \<Rightarrow> cs_mainAudioRelativeIndex st
      | None \<Rightarrow> (case find isDefaultLoose (filter isAudio xs) of
           Some m \<Rightarrow> cs_audioCount st +
             int (length (takeWhile (\<lambda>s. \<not> isDefaultLoose s) (filter isAudio xs)))
         | None \<Rightarrow> cs_mainAudioRelativeIndex st)) \<and>
   cs_firstAudio (channelSearchLoop i st xs) =
     (case cs_firstAudio st of Some f \<Rightarrow> Some f
      | None \<Rightarrow> (case filter isAudio xs of [] \<Rightarrow> None | a # as \<Rightarrow> Some a)) \<and>
   cs_firstAudioRelativeIndex (channelSearchLoop i st xs) =
     (case cs_firstAudio st of Some f \<Rightarrow> cs_firstAudioRelativeIndex st
      | None \<Rightarrow> (case filter isAudio xs of [] \<Rightarrow> cs_firstAudioRelativeIndex st
                  | a # as \<Rightarrow> cs_audioCount st)) \<and>
   cs_audioCount (channelSearchLoop i st xs) = cs_audioCount st + int (length (filter isAudio xs))"
proof (induction xs arbitrary: i st)
  case Nil
  then show ?case by (simp split: option.splits)
next
  case (Cons x xs)
  show ?case
  proof (cases "isAudio x")
    case False
    then have "codec_type x \<noteq> ''audio''"
      by (simp add: isAudio_def)
    with False show ?thesis
      using Cons.IH [of "i + 1" st]
      by (simp cong: option.case_cong list.case_cong)
  next
    case True
    then have au: "codec_type x = ''audio''"
      by (simp add: isAudio_def)
    from True show ?thesis
      by (cases "cs_mainAudio st"; cases "cs_firstAudio st"; cases "isDefaultLoose x")
         (simp_all add: au Let_def Cons.IH add.assoc cong: option.case_cong list.case_cong)
  qed
qed

lemma checkTargetAudio_spec: "checkTargetAudio streams = firstDefaultOrFirst isDefaultLoose streams"
proof (cases "filter isAudio streams")
  case Nil
  then show ?thesis
    by (simp add: checkTargetAudio_def channelSearch_loop channelSearchInit_def
        firstDefaultOrFirst_def)
next
  case (Cons a as)
  then show ?thesis
    by (simp add: checkTargetAudio_def channelSearch_loop channelSearchInit_def
        firstDefaultOrFirst_def split: option.splits)
qed

text \<open>
  C1, at a failing input. Two audio streams are both flagged default: DTS 5.1 first, AAC
  stereo second. The first audio stream flagged default is stream 0, and createStereoDownmix
  and Check Main Audio Stream Channels select it; the analysis loop of Process Audio
  Complete overwrites its main track at every flagged stream and ends with stream 1, so it
  sees no DTS main track and plans no recode.
\<close>

theorem main_track_last_default:
  "pa_mainAudioIndex (analyse defaultPolicy
      [audioStream ''dts'' 6 ''eng'' [] (JNumber 1), audioStream ''aac'' 2 ''eng'' [] (JNumber 1)]) = 1 \<and>
   firstDefaultOrFirst isDefaultStrict
      [audioStream ''dts'' 6 ''eng'' [] (JNumber 1), audioStream ''aac'' 2 ''eng'' [] (JNumber 1)] =
     Some (0, audioStream ''dts'' 6 ''eng'' [] (JNumber 1)) \<and>
   targetAudio
      [audioStream ''dts'' 6 ''eng'' [] (JNumber 1), audioStream ''aac'' 2 ''eng'' [] (JNumber 1)] =
     Some (0, audioStream ''dts'' 6 ''eng'' [] (JNumber 1)) \<and>
   checkTargetAudio
      [audioStream ''dts'' 6 ''eng'' [] (JNumber 1), audioStream ''aac'' 2 ''eng'' [] (JNumber 1)] =
     Some (0, audioStream ''dts'' 6 ''eng'' [] (JNumber 1)) \<and>
   needsDDP defaultPolicy (analyse defaultPolicy
      [audioStream ''dts'' 6 ''eng'' [] (JNumber 1), audioStream ''aac'' 2 ''eng'' [] (JNumber 1)]) = False"
  by code_simp

section \<open>The downmix requirement\<close>

lemma analyseStep_other: "\<not> isAudio x \<Longrightarrow> analyseStep pol st x = st"
  by (simp add: analyseStep_def isAudio_def)

lemma analyseStep_audio:
  assumes "isAudio x"
  shows "length (audioStreams (analyseStep pol st x)) = Suc (length (audioStreams st))"
    and "hasEnglishStereo (analyseStep pol st x) = (hasEnglishStereo st \<or> englishOrUntaggedStereo x)"
    and "mainAudioChannels (analyseStep pol st x) =
           (if audioStreams st = [] \<or> isDefaultStrict x then channelsOr2 (channels x)
            else mainAudioChannels st)"
    and "pa_mainAudioIndex (analyseStep pol st x) =
           (if audioStreams st = [] \<or> isDefaultStrict x then length (audioStreams st)
            else pa_mainAudioIndex st)"
  using assms
  by (auto simp: analyseStep_def isAudio_def Let_def englishOrUntaggedStereo_def)

lemma analyse_length:
  "length (audioStreams (foldl (analyseStep pol) st xs)) =
     length (audioStreams st) + length (filter isAudio xs)"
  by (induction xs arbitrary: st) (simp_all add: analyseStep_other analyseStep_audio)

lemma analyse_hasEnglishStereo:
  "hasEnglishStereo (foldl (analyseStep pol) st xs) =
     (hasEnglishStereo st \<or> list_ex englishOrUntaggedStereo (filter isAudio xs))"
  by (induction xs arbitrary: st) (auto simp: analyseStep_other analyseStep_audio)

lemma find_None_filter: "filter P xs = [] \<Longrightarrow> find P xs = None"
  by (induction xs) (auto split: if_splits)

lemma analyse_main:
  "length (filter isDefaultStrict (filter isAudio xs)) \<le> 1 \<Longrightarrow>
   mainAudioChannels (foldl (analyseStep pol) st xs) =
     (case find isDefaultStrict (filter isAudio xs) of
        Some m \<Rightarrow> channelsOr2 (channels m)
      | None \<Rightarrow> if audioStreams st = []
                then (case filter isAudio xs of [] \<Rightarrow> mainAudioChannels st
                      | a # as \<Rightarrow> channelsOr2 (channels a))
                else mainAudioChannels st)"
proof (induction xs arbitrary: st)
  case Nil
  then show ?case by simp
next
  case (Cons x xs)
  show ?case
  proof (cases "isAudio x")
    case False
    with Cons show ?thesis
      by (simp add: analyseStep_other cong: option.case_cong list.case_cong)
  next
    case audio: True
    have nonempty: "audioStreams (analyseStep pol st x) \<noteq> []"
      using analyseStep_audio(1) [OF audio, of pol st] by auto
    show ?thesis
    proof (cases "isDefaultStrict x")
      case True
      with Cons.prems audio have none: "filter isDefaultStrict (filter isAudio xs) = []"
        by simp
      then have "find isDefaultStrict (filter isAudio xs) = None"
        by (rule find_None_filter)
      with Cons.IH [of "analyseStep pol st x"] none nonempty audio True show ?thesis
        by (simp add: analyseStep_audio cong: option.case_cong list.case_cong)
    next
      case False
      with Cons.prems audio have "length (filter isDefaultStrict (filter isAudio xs)) \<le> 1"
        by simp
      with Cons.IH [of "analyseStep pol st x"] nonempty audio False show ?thesis
        by (simp add: analyseStep_audio split: option.splits cong: list.case_cong)
    qed
  qed
qed

lemma channelsOr2_above: "(channelsOr2 c > 2) = channelsAbove2 c"
  by (simp add: channelsOr2_def channelsAbove2_def split: option.splits)

theorem needsStereo_characterised:
  assumes "length (filter isDefaultStrict (filter isAudio streams)) \<le> 1"
  shows "needsStereo pol (analyse pol streams) =
     (createStereo pol \<and>
      (case firstDefaultOrFirst isDefaultStrict streams of
         None \<Rightarrow> False
       | Some (i, m) \<Rightarrow> channelsAbove2 (channels m)) \<and>
      \<not> list_ex englishOrUntaggedStereo (filter isAudio streams))"
proof -
  have eng: "hasEnglishStereo (analyse pol streams) =
      list_ex englishOrUntaggedStereo (filter isAudio streams)"
    by (simp add: analyse_def analyse_hasEnglishStereo analysisInit_def)
  have main: "(mainAudioChannels (analyse pol streams) > 2) =
      (case firstDefaultOrFirst isDefaultStrict streams of
         None \<Rightarrow> False
       | Some (i, m) \<Rightarrow> channelsAbove2 (channels m))"
    unfolding analyse_def analyse_main [OF assms]
    by (simp add: analysisInit_def firstDefaultOrFirst_def channelsOr2_above
        split: option.splits list.splits)
  show ?thesis
    by (simp add: needsStereo_def eng main)
qed

text \<open>
  The claim C4 as stated fails: with French as the configured default language, a French
  5.1 main track and an existing French stereo track, the specification's requirement is
  false (a stereo track in the default language exists) while the plugin's \<open>needsStereo\<close>
  is true, because the plugin looks for an English stereo track.
\<close>

theorem needsStereo_counterexample:
  "needsStereo (defaultPolicy\<lparr>defaultLanguage := ''fre''\<rparr>)
     (analyse (defaultPolicy\<lparr>defaultLanguage := ''fre''\<rparr>)
        [audioStream ''ac3'' 6 ''fre'' [] (JNumber 1), audioStream ''aac'' 2 ''fre'' [] (JNumber 0)]) \<and>
   \<not> needsDownmixSpec (defaultPolicy\<lparr>defaultLanguage := ''fre''\<rparr>)
        [audioStream ''ac3'' 6 ''fre'' [] (JNumber 1), audioStream ''aac'' 2 ''fre'' [] (JNumber 0)]"
  by code_simp

lemma analyseStepSync_other: "\<not> isAudio x \<Longrightarrow> analyseStepSync pol st x = st"
  by (simp add: analyseStepSync_def isAudio_def)

lemma analyseStepSync_audio:
  assumes "isAudio x"
  shows "sy_hasMultichannel (analyseStepSync pol st x) =
           (sy_hasMultichannel st \<or> channelsAbove2 (channels x))"
    and "sy_hasEnglishStereo (analyseStepSync pol st x) =
           (sy_hasEnglishStereo st \<or>
            (channels x = Some 2 \<and>
             (normalizeLangCodeSync (tags_language x) = ''eng'' \<or>
              normalizeLangCodeSync (tags_language x) = ''en'' \<or>
              tags_language x = [] \<or> tags_language x = ''und'')))"
  using assms
  by (auto simp: analyseStepSync_def isAudio_def Let_def)

lemma analyseSync_flags:
  "sy_hasMultichannel (foldl (analyseStepSync pol) st xs) =
     (sy_hasMultichannel st \<or> list_ex (\<lambda>s. channelsAbove2 (channels s)) (filter isAudio xs)) \<and>
   sy_hasEnglishStereo (foldl (analyseStepSync pol) st xs) =
     (sy_hasEnglishStereo st \<or>
      list_ex (\<lambda>s. channels s = Some 2 \<and>
                 (normalizeLangCodeSync (tags_language s) = ''eng'' \<or>
                  normalizeLangCodeSync (tags_language s) = ''en'' \<or>
                  tags_language s = [] \<or> tags_language s = ''und''))
        (filter isAudio xs))"
  by (induction xs arbitrary: st) (auto simp: analyseStepSync_other analyseStepSync_audio)

text \<open>
  C4, as amended. In Process Audio Complete, for a stream list in which at most one audio
  stream is flagged default, the downmix requirement holds exactly when the flag is on,
  the main track (first default, else first audio stream) has more than two channels, and
  no audio stream is stereo with the normalized language \<open>eng\<close> or with no or an \<open>und\<close>
  language tag; the configured default language plays no part. In the revision that
  replaces the file itself the requirement holds exactly when the flag is on, some audio
  stream has more than two channels, and no audio stream is stereo and English or untagged.
\<close>

theorem needsStereo_english:
  "(length (filter isDefaultStrict (filter isAudio streams)) \<le> 1 \<longrightarrow>
    needsStereo pol (analyse pol streams) =
      (createStereo pol \<and>
       (case firstDefaultOrFirst isDefaultStrict streams of
          None \<Rightarrow> False
        | Some (i, m) \<Rightarrow> channelsAbove2 (channels m)) \<and>
       \<not> list_ex englishOrUntaggedStereo (filter isAudio streams))) \<and>
   needsStereoSync pol (analyseSync pol streams) =
     (createStereo pol \<and>
      list_ex (\<lambda>s. channelsAbove2 (channels s)) (filter isAudio streams) \<and>
      \<not> list_ex (\<lambda>s. channels s = Some 2 \<and>
                      (normalizeLangCodeSync (tags_language s) = ''eng'' \<or>
                       normalizeLangCodeSync (tags_language s) = ''en'' \<or>
                       tags_language s = [] \<or> tags_language s = ''und''))
           (filter isAudio streams))"
proof -
  have sync: "needsStereoSync pol (analyseSync pol streams) =
     (createStereo pol \<and>
      list_ex (\<lambda>s. channelsAbove2 (channels s)) (filter isAudio streams) \<and>
      \<not> list_ex (\<lambda>s. channels s = Some 2 \<and>
                      (normalizeLangCodeSync (tags_language s) = ''eng'' \<or>
                       normalizeLangCodeSync (tags_language s) = ''en'' \<or>
                       tags_language s = [] \<or> tags_language s = ''und''))
           (filter isAudio streams))"
    by (simp add: needsStereoSync_def analyseSync_def analyseSync_flags analysisSyncInit_def)
  show ?thesis
    using needsStereo_characterised [of streams pol] sync by blast
qed

theorem needsStereo_english_witness:
  "needsStereo defaultPolicy (analyse defaultPolicy
      [audioStream ''dts'' 6 ''fre'' [] (JNumber 0), audioStream ''aac'' 2 ''fre'' [] (JNumber 0)]) \<and>
   \<not> needsStereo defaultPolicy (analyse defaultPolicy
      [audioStream ''dts'' 6 ''fre'' [] (JNumber 0), audioStream ''aac'' 2 ''en'' [] (JNumber 1)])"
proof -
  let ?a = "[audioStream ''dts'' 6 ''fre'' [] (JNumber 0), audioStream ''aac'' 2 ''fre'' [] (JNumber 0)]"
  let ?b = "[audioStream ''dts'' 6 ''fre'' [] (JNumber 0), audioStream ''aac'' 2 ''en'' [] (JNumber 1)]"
  have ha: "length (filter isDefaultStrict (filter isAudio ?a)) \<le> 1"
    by code_simp
  have hb: "length (filter isDefaultStrict (filter isAudio ?b)) \<le> 1"
    by code_simp
  have ra: "createStereo defaultPolicy \<and>
       (case firstDefaultOrFirst isDefaultStrict ?a of
          None \<Rightarrow> False
        | Some (i, m) \<Rightarrow> channelsAbove2 (channels m)) \<and>
       \<not> list_ex englishOrUntaggedStereo (filter isAudio ?a)"
    by code_simp
  have rb: "\<not> (createStereo defaultPolicy \<and>
       (case firstDefaultOrFirst isDefaultStrict ?b of
          None \<Rightarrow> False
        | Some (i, m) \<Rightarrow> channelsAbove2 (channels m)) \<and>
       \<not> list_ex englishOrUntaggedStereo (filter isAudio ?b))"
    by code_simp
  show ?thesis
    using ha hb ra rb needsStereo_english [of ?a defaultPolicy] needsStereo_english [of ?b defaultPolicy]
    by blast
qed

section \<open>The order of the existing tracks\<close>

lemma filter_insertSorted:
  assumes "\<And>y. y \<in> set ys \<Longrightarrow> P x \<Longrightarrow> P y \<Longrightarrow> cmp x y \<le> 0"
  shows "filter P (insertSorted cmp x ys) = (if P x then x # filter P ys else filter P ys)"
  using assms
proof (induction ys)
  case Nil
  then show ?case by simp
next
  case (Cons y ys)
  show ?case
  proof (cases "cmp x y \<le> 0")
    case True
    then show ?thesis by simp
  next
    case False
    with Cons.prems [of y] have "\<not> (P x \<and> P y)"
      by auto
    moreover have "filter P (insertSorted cmp x ys) = (if P x then x # filter P ys else filter P ys)"
      using Cons.IH Cons.prems by simp
    ultimately show ?thesis
      using False by auto
  qed
qed

lemma filter_jsSort:
  assumes "\<And>x y. P x \<Longrightarrow> P y \<Longrightarrow> cmp x y \<le> 0"
  shows "filter P (jsSort cmp xs) = filter P xs"
proof (induction xs)
  case Nil
  then show ?case by (simp add: jsSort_def)
next
  case (Cons x xs)
  have "filter P (insertSorted cmp x (jsSort cmp xs)) =
      (if P x then x # filter P (jsSort cmp xs) else filter P (jsSort cmp xs))"
    by (rule filter_insertSorted) (rule assms)
  with Cons show ?case
    by (simp add: jsSort_def)
qed

lemma set_insertSorted: "set (insertSorted cmp x ys) = insert x (set ys)"
  by (induction ys) auto

lemma set_jsSort: "set (jsSort cmp xs) = set xs"
  by (induction xs) (simp_all add: jsSort_def set_insertSorted)

lemma sorted_insertSorted:
  assumes total: "\<And>a b. \<not> cmp a b \<le> 0 \<Longrightarrow> cmp b a \<le> 0"
    and trans: "\<And>a b c. cmp a b \<le> 0 \<Longrightarrow> cmp b c \<le> 0 \<Longrightarrow> cmp a c \<le> 0"
    and "sorted_wrt (\<lambda>a b. cmp a b \<le> 0) ys"
  shows "sorted_wrt (\<lambda>a b. cmp a b \<le> 0) (insertSorted cmp x ys)"
  using assms(3)
proof (induction ys)
  case Nil
  then show ?case by simp
next
  case (Cons y ys)
  show ?case
  proof (cases "cmp x y \<le> 0")
    case True
    with Cons.prems trans show ?thesis
      by auto
  next
    case False
    then have "cmp y x \<le> 0"
      by (rule total)
    with Cons False show ?thesis
      by (auto simp: set_insertSorted)
  qed
qed

lemma sorted_jsSort:
  assumes "\<And>a b. \<not> cmp a b \<le> 0 \<Longrightarrow> cmp b a \<le> 0"
    and "\<And>a b c. cmp a b \<le> 0 \<Longrightarrow> cmp b c \<le> 0 \<Longrightarrow> cmp a c \<le> 0"
  shows "sorted_wrt (\<lambda>a b. cmp a b \<le> 0) (jsSort cmp xs)"
proof (induction xs)
  case Nil
  then show ?case by (simp add: jsSort_def)
next
  case (Cons x xs)
  have "sorted_wrt (\<lambda>a b. cmp a b \<le> 0) (insertSorted cmp x (jsSort cmp xs))"
    using assms Cons by (rule sorted_insertSorted)
  then show ?case
    by (simp add: jsSort_def)
qed

lemma indexOf_rankIn:
  "indexOf prio x = (if x \<in> set prio then int (rankIn prio x) else - 1)"
proof (induction prio)
  case Nil
  then show ?case by (simp add: rankIn_def)
next
  case (Cons y ys)
  then show ?case
    by (auto simp: rankIn_def Let_def)
qed

lemma rankIn_listed: "(z \<in> set prio) = (rankIn prio z < length prio)"
  by (induction prio) (auto simp: rankIn_def)

lemma rankIn_member: "rankIn prio x = rankIn prio y \<Longrightarrow> (x \<in> set prio) = (y \<in> set prio)"
  by (simp add: rankIn_listed)

lemma equal_rank_compare:
  assumes "existingOfRank pol r c a" and "existingOfRank pol r c b"
  shows "compareTracks pol a b = 0"
  using assms rankIn_member [of "languagePriority pol" "normalizeLangCode (t_language a)"
      "normalizeLangCode (t_language b)"]
    rankIn_member [of "codecPriority pol" "toLowerCase (originalCodec a)"
      "toLowerCase (originalCodec b)"]
  by (simp add: existingOfRank_def compareTracks_def langRank_def codecRank_def
      indexOf_rankIn Let_def)

lemma equal_rank_compareSync:
  assumes "existingOfRankSync pol r c a" and "existingOfRankSync pol r c b"
  shows "compareTracksSync pol a b = 0"
  using assms rankIn_member [of "languagePriority pol" "normalizeLangCodeSync (t_language a)"
      "normalizeLangCodeSync (t_language b)"]
    rankIn_member [of "codecPriority pol" "toLowerCase (originalCodec a)"
      "toLowerCase (originalCodec b)"]
  by (simp add: existingOfRankSync_def compareTracksSync_def langRankSync_def codecRank_def
      indexOf_rankIn Let_def)

lemma compareTracks_total: "\<not> compareTracks pol a b \<le> 0 \<Longrightarrow> compareTracks pol b a \<le> 0"
  by (auto simp: compareTracks_def Let_def split: if_splits)

lemma compareTracks_trans:
  "compareTracks pol a b \<le> 0 \<Longrightarrow> compareTracks pol b c \<le> 0 \<Longrightarrow> compareTracks pol a c \<le> 0"
  by (auto simp: compareTracks_def Let_def split: if_splits)

lemma order_stable:
  assumes "\<forall>t \<in> set out. (isDDP t \<or> isStereo t) \<longrightarrow> isNew t"
  shows "filter (existingOfRank pol r c) (orderOutputAudio pol out) =
         filter (existingOfRank pol r c) out"
proof -
  have new: "filter (existingOfRank pol r c) (filter isDDP out) = []"
       "filter (existingOfRank pol r c) (filter isStereo out) = []"
    using assms by (auto simp: filter_empty_conv existingOfRank_def)
  have "filter (existingOfRank pol r c) (jsSort (compareTracks pol) (filter (\<lambda>t. \<not> isNew t) out)) =
      filter (existingOfRank pol r c) (filter (\<lambda>t. \<not> isNew t) out)"
    by (rule filter_jsSort) (simp add: equal_rank_compare)
  also have "\<dots> = filter (existingOfRank pol r c) out"
    by (auto simp: existingOfRank_def intro: filter_cong)
  finally show ?thesis
    using new by (simp add: orderOutputAudio_def)
qed

lemma order_stableSync:
  assumes "\<forall>t \<in> set out. (isDDP t \<or> isStereo t) \<longrightarrow> isNew t"
  shows "filter (existingOfRankSync pol r c) (orderOutputAudioSync pol out) =
         filter (existingOfRankSync pol r c) out"
proof -
  have new: "filter (existingOfRankSync pol r c) (filter isDDP out) = []"
       "filter (existingOfRankSync pol r c) (filter isStereo out) = []"
    using assms by (auto simp: filter_empty_conv existingOfRankSync_def)
  have "filter (existingOfRankSync pol r c)
        (jsSort (compareTracksSync pol) (filter (\<lambda>t. \<not> isNew t) out)) =
      filter (existingOfRankSync pol r c) (filter (\<lambda>t. \<not> isNew t) out)"
    by (rule filter_jsSort) (simp add: equal_rank_compareSync)
  also have "\<dots> = filter (existingOfRankSync pol r c) out"
    by (auto simp: existingOfRankSync_def intro: filter_cong)
  finally show ?thesis
    using new by (simp add: orderOutputAudioSync_def)
qed

lemma titleLoop_untitled: "map untitled (titleLoop dl seen ts) = map untitled ts"
  by (induction ts arbitrary: seen) (simp_all add: titleEntry_def Let_def untitled_def)

lemma existingOfRank_untitled: "existingOfRank pol r c (untitled t) = existingOfRank pol r c t"
  by (simp add: existingOfRank_def untitled_def)

lemma compareTracks_untitled: "compareTracks pol (untitled a) (untitled b) = compareTracks pol a b"
  by (simp add: compareTracks_def langRank_def codecRank_def untitled_def Let_def)

lemma filter_untitled:
  assumes "map untitled xs = map untitled ys" and "\<And>t. P (untitled t) = P t"
  shows "map untitled (filter P xs) = map untitled (filter P ys)"
proof -
  have "map untitled (filter P xs) = filter P (map untitled xs)"
    by (simp add: filter_map comp_def assms(2))
  also have "\<dots> = filter P (map untitled ys)"
    by (simp add: assms(1))
  also have "\<dots> = map untitled (filter P ys)"
    by (simp add: filter_map comp_def assms(2))
  finally show ?thesis .
qed

lemma sorted_untitled:
  assumes "map untitled xs = map untitled ys" and "\<And>a b. R (untitled a) (untitled b) = R a b"
  shows "sorted_wrt R xs = sorted_wrt R ys"
proof -
  have "sorted_wrt R xs = sorted_wrt R (map untitled xs)"
    by (simp add: sorted_wrt_map assms(2))
  also have "\<dots> = sorted_wrt R (map untitled ys)"
    by (simp add: assms(1))
  also have "\<dots> = sorted_wrt R ys"
    by (simp add: sorted_wrt_map assms(2))
  finally show ?thesis .
qed

lemma analyseStep_infos:
  "isAudio x \<Longrightarrow> map audioIndex (audioStreams (analyseStep pol st x)) =
     map audioIndex (audioStreams st) @ [length (audioStreams st)]"
  by (auto simp: analyseStep_def isAudio_def Let_def)

lemma analyse_indices:
  "map audioIndex (audioStreams (foldl (analyseStep pol) st xs)) =
     map audioIndex (audioStreams st) @
     [length (audioStreams st) ..< length (audioStreams st) + length (filter isAudio xs)]"
proof (induction xs arbitrary: st)
  case Nil
  then show ?case by simp
next
  case (Cons x xs)
  show ?case
  proof (cases "isAudio x")
    case False
    then show ?thesis
      by (simp add: analyseStep_other Cons.IH)
  next
    case True
    let ?k = "length (audioStreams st)"
    let ?n = "length (filter isAudio xs)"
    have "[?k ..< Suc (?k + ?n)] = ?k # [Suc ?k ..< Suc (?k + ?n)]"
      by (rule upt_conv_Cons) simp
    with True show ?thesis
      by (simp add: Cons.IH analyseStep_infos analyseStep_audio(1) del: upt_Suc)
  qed
qed

lemma analyse_indices_all:
  "map audioIndex (audioStreams (analyse pol streams)) = [0 ..< length (filter isAudio streams)]"
  by (simp add: analyse_def analyse_indices analysisInit_def)

lemma build_wellformed:
  "\<forall>t \<in> set (buildOutputAudio pol an). (isDDP t \<or> isStereo t) \<longrightarrow> isNew t"
  by (auto simp: buildOutputAudio_def ddpTrack_def stereoTrack_def copyTrack_def)

lemma build_existing:
  "filter (\<lambda>t. \<not> isNew t) (buildOutputAudio pol an) = map (copyTrack an) (audioStreams an)"
  by (auto simp: buildOutputAudio_def ddpTrack_def stereoTrack_def copyTrack_def filter_empty_conv
      intro!: filter_True)

lemma copy_sources:
  "map (\<lambda>t. parseAudioIndexFromSource (source t)) (map (copyTrack an) (audioStreams an)) =
     map int (map audioIndex (audioStreams an))"
  by (simp add: copyTrack_def parseAudioIndexFromSource_def)

lemma plan_outputAudio:
  "planAudio pol streams = Some pl \<Longrightarrow>
   outputAudio pl = titleLoop (defaultLanguage pol) []
      (orderOutputAudio pol (buildOutputAudio pol (analyse pol streams))) \<and>
   originalTracks pl = filter (\<lambda>t. \<not> isNew t) (outputAudio pl)"
  by (auto simp: planAudio_def Let_def split: if_splits)

lemma plan_existing_untitled:
  assumes "planAudio pol streams = Some pl"
  shows "map untitled (filter (existingOfRank pol r c) (outputAudio pl)) =
         map untitled (filter (existingOfRank pol r c)
            (map (copyTrack (analyse pol streams)) (audioStreams (analyse pol streams))))"
proof -
  let ?an = "analyse pol streams"
  have out: "outputAudio pl = titleLoop (defaultLanguage pol) []
      (orderOutputAudio pol (buildOutputAudio pol ?an))"
    using plan_outputAudio [OF assms] by simp
  have "map untitled (filter (existingOfRank pol r c) (outputAudio pl)) =
      map untitled (filter (existingOfRank pol r c) (orderOutputAudio pol (buildOutputAudio pol ?an)))"
    unfolding out
    by (rule filter_untitled) (simp_all add: titleLoop_untitled existingOfRank_untitled)
  also have "\<dots> = map untitled (filter (existingOfRank pol r c) (buildOutputAudio pol ?an))"
    by (simp add: order_stable [OF build_wellformed])
  also have "filter (existingOfRank pol r c) (buildOutputAudio pol ?an) =
      filter (existingOfRank pol r c) (filter (\<lambda>t. \<not> isNew t) (buildOutputAudio pol ?an))"
    by (auto simp: existingOfRank_def intro: filter_cong)
  finally show ?thesis
    by (simp add: build_existing)
qed

lemma plan_existing_increasing:
  assumes "planAudio pol streams = Some pl"
  shows "sorted_wrt (<) (map (\<lambda>t. parseAudioIndexFromSource (source t))
           (filter (existingOfRank pol r c) (outputAudio pl)))"
proof -
  let ?an = "analyse pol streams"
  let ?g = "\<lambda>t. parseAudioIndexFromSource (source t)"
  let ?copies = "map (copyTrack ?an) (audioStreams ?an)"
  have g: "\<And>t. ?g (untitled t) = ?g t"
    by (simp add: untitled_def)
  have "map ?g (filter (existingOfRank pol r c) (outputAudio pl)) =
      map (?g \<circ> untitled) (filter (existingOfRank pol r c) (outputAudio pl))"
    by (simp add: g comp_def)
  also have "\<dots> = map ?g (map untitled (filter (existingOfRank pol r c) (outputAudio pl)))"
    by simp
  also have "\<dots> = map ?g (map untitled (filter (existingOfRank pol r c) ?copies))"
    by (simp only: plan_existing_untitled [OF assms])
  also have "\<dots> = map ?g (filter (existingOfRank pol r c) ?copies)"
    by (simp add: g comp_def)
  finally have eq: "map ?g (filter (existingOfRank pol r c) (outputAudio pl)) =
      map ?g (filter (existingOfRank pol r c) ?copies)" .
  have "sorted_wrt (<) (map ?g ?copies)"
    unfolding copy_sources analyse_indices_all
    by (simp add: sorted_wrt_map)
  then have "sorted_wrt (\<lambda>a b. ?g a < ?g b) ?copies"
    by (simp add: sorted_wrt_map)
  then have "sorted_wrt (\<lambda>a b. ?g a < ?g b) (filter (existingOfRank pol r c) ?copies)"
    by (rule sorted_wrt_filter)
  then show ?thesis
    unfolding eq by (simp add: sorted_wrt_map)
qed

lemma plan_existing_sorted:
  assumes "planAudio pol streams = Some pl"
  shows "sorted_wrt (\<lambda>a b. compareTracks pol a b \<le> 0) (originalTracks pl)"
proof -
  let ?an = "analyse pol streams"
  let ?sorted = "jsSort (compareTracks pol) (filter (\<lambda>t. \<not> isNew t) (buildOutputAudio pol ?an))"
  have notnew: "\<And>t. (\<not> isNew (untitled t)) = (\<not> isNew t)"
    by (simp add: untitled_def)
  have out: "originalTracks pl = filter (\<lambda>t. \<not> isNew t) (titleLoop (defaultLanguage pol) []
      (orderOutputAudio pol (buildOutputAudio pol ?an)))"
    using plan_outputAudio [OF assms] by simp
  have "map untitled (originalTracks pl) =
      map untitled (filter (\<lambda>t. \<not> isNew t) (orderOutputAudio pol (buildOutputAudio pol ?an)))"
    unfolding out
    by (rule filter_untitled) (simp_all add: titleLoop_untitled notnew)
  also have "filter (\<lambda>t. \<not> isNew t) (orderOutputAudio pol (buildOutputAudio pol ?an)) = ?sorted"
    using build_wellformed [of pol ?an]
    by (auto simp: orderOutputAudio_def filter_empty_conv set_jsSort intro!: filter_True)
  finally have "map untitled (originalTracks pl) = map untitled ?sorted" .
  then have "sorted_wrt (\<lambda>a b. compareTracks pol a b \<le> 0) (originalTracks pl) =
      sorted_wrt (\<lambda>a b. compareTracks pol a b \<le> 0) ?sorted"
    by (rule sorted_untitled) (simp add: compareTracks_untitled)
  then show ?thesis
    using sorted_jsSort [of "compareTracks pol", OF compareTracks_total compareTracks_trans]
    by simp
qed

lemma compareTracks_le:
  "(compareTracks pol a b \<le> 0) =
     (langRank (languagePriority pol) a < langRank (languagePriority pol) b \<or>
      (langRank (languagePriority pol) a = langRank (languagePriority pol) b \<and>
       codecRank (codecPriority pol) a \<le> codecRank (codecPriority pol) b))"
  by (auto simp: compareTracks_def Let_def)

text \<open>
  C8. The existing (copied) tracks of a plan are sorted by language rank and then codec
  rank, and the sort is stable: among the existing tracks whose normalized language has
  rank \<open>r\<close> in the language priority list and whose original codec has rank \<open>c\<close> in the
  codec priority list (an unlisted value ranking after all listed ones), the positions in
  the input stream list increase along the output plan, whatever \<open>r\<close> and \<open>c\<close> are. The
  sort step itself, in both revisions of the plugin, leaves the sublist of existing
  tracks of each rank pair as it was in any track list whose new tracks are flagged new.
\<close>

theorem existing_tracks_stable_sort:
  "(planAudio pol streams = Some pl \<longrightarrow>
      sorted_wrt (<) (map (\<lambda>t. parseAudioIndexFromSource (source t))
         (filter (existingOfRank pol r c) (outputAudio pl))) \<and>
      sorted_wrt (\<lambda>a b. langRank (languagePriority pol) a < langRank (languagePriority pol) b \<or>
                    (langRank (languagePriority pol) a = langRank (languagePriority pol) b \<and>
                     codecRank (codecPriority pol) a \<le> codecRank (codecPriority pol) b))
         (originalTracks pl)) \<and>
   ((\<forall>t \<in> set out. (isDDP t \<or> isStereo t) \<longrightarrow> isNew t) \<longrightarrow>
      filter (existingOfRank pol r c) (orderOutputAudio pol out) =
        filter (existingOfRank pol r c) out \<and>
      filter (existingOfRankSync pol r c) (orderOutputAudioSync pol out) =
        filter (existingOfRankSync pol r c) out)"
proof -
  have plan: "planAudio pol streams = Some pl \<longrightarrow>
      sorted_wrt (<) (map (\<lambda>t. parseAudioIndexFromSource (source t))
         (filter (existingOfRank pol r c) (outputAudio pl))) \<and>
      sorted_wrt (\<lambda>a b. langRank (languagePriority pol) a < langRank (languagePriority pol) b \<or>
                    (langRank (languagePriority pol) a = langRank (languagePriority pol) b \<and>
                     codecRank (codecPriority pol) a \<le> codecRank (codecPriority pol) b))
         (originalTracks pl)"
    using plan_existing_increasing [of pol streams pl r c] plan_existing_sorted [of pol streams pl]
    by (simp add: compareTracks_le)
  have generic: "(\<forall>t \<in> set out. (isDDP t \<or> isStereo t) \<longrightarrow> isNew t) \<longrightarrow>
      filter (existingOfRank pol r c) (orderOutputAudio pol out) =
        filter (existingOfRank pol r c) out \<and>
      filter (existingOfRankSync pol r c) (orderOutputAudioSync pol out) =
        filter (existingOfRankSync pol r c) out"
    using order_stable [of out pol r c] order_stableSync [of out pol r c] by blast
  from plan generic show ?thesis
    by blast
qed

theorem existing_tracks_stable_sort_witness:
  "map source (outputAudio (the (planAudio defaultPolicy
      [audioStream ''aac'' 2 ''fre'' [] (JNumber 0), audioStream ''aac'' 2 ''eng'' [] (JNumber 0),
       audioStream ''dts'' 6 ''eng'' [] (JNumber 0), audioStream ''aac'' 2 ''en'' [] (JNumber 0)]))) =
     [Some 2, Some 1, Some 3, Some 0] \<and>
   sorted_wrt (<) (map (\<lambda>t. parseAudioIndexFromSource (source t))
     (filter (existingOfRank defaultPolicy 0 2) (outputAudio (the (planAudio defaultPolicy
      [audioStream ''aac'' 2 ''fre'' [] (JNumber 0), audioStream ''aac'' 2 ''eng'' [] (JNumber 0),
       audioStream ''dts'' 6 ''eng'' [] (JNumber 0), audioStream ''aac'' 2 ''en'' [] (JNumber 0)])))))"
proof -
  let ?ss = "[audioStream ''aac'' 2 ''fre'' [] (JNumber 0), audioStream ''aac'' 2 ''eng'' [] (JNumber 0),
       audioStream ''dts'' 6 ''eng'' [] (JNumber 0), audioStream ''aac'' 2 ''en'' [] (JNumber 0)]"
  have some: "planAudio defaultPolicy ?ss = Some (the (planAudio defaultPolicy ?ss))"
    by code_simp
  have order: "map source (outputAudio (the (planAudio defaultPolicy ?ss))) =
      [Some 2, Some 1, Some 3, Some 0]"
    by code_simp
  show ?thesis
    using some order
      existing_tracks_stable_sort [of defaultPolicy ?ss "the (planAudio defaultPolicy ?ss)" 0 2 "[]"]
    by blast
qed

section \<open>The Original descriptor\<close>

lemma titleEntry_fields:
  "t_language (titleEntry dl seen t) = t_language t"
  "isNew (titleEntry dl seen t) = isNew t"
  "markedOriginal (titleEntry dl seen t) = (trackLangKey dl t \<notin> set seen \<and> \<not> isNew t)"
  by (simp_all add: titleEntry_def Let_def)

lemma trackLangKey_titleEntry: "trackLangKey dl (titleEntry dl seen t) = trackLangKey dl t"
  by (simp add: trackLangKey_def titleEntry_fields)

lemma titleLoop_marked:
  "t' \<in> set (titleLoop dl seen ts) \<Longrightarrow> markedOriginal t' \<Longrightarrow>
   trackLangKey dl t' \<notin> set seen \<and> \<not> isNew t'"
proof (induction ts arbitrary: seen)
  case Nil
  then show ?case by simp
next
  case (Cons t ts)
  from Cons.prems(1) consider "t' = titleEntry dl seen t"
    | "t' \<in> set (titleLoop dl (if \<not> isNew t then trackLangKey dl t # seen else seen) ts)"
    by auto
  then show ?case
  proof cases
    case 1
    with Cons.prems(2) show ?thesis
      by (simp add: titleEntry_fields trackLangKey_titleEntry)
  next
    case 2
    from Cons.IH [OF 2 Cons.prems(2)] show ?thesis
      by (auto split: if_splits)
  qed
qed

lemma titleLoop_distinct:
  "distinct (map (trackLangKey dl) (filter markedOriginal (titleLoop dl seen ts)))"
proof (induction ts arbitrary: seen)
  case Nil
  then show ?case by simp
next
  case (Cons t ts)
  let ?seen' = "if \<not> isNew t then trackLangKey dl t # seen else seen"
  show ?case
  proof (cases "markedOriginal (titleEntry dl seen t)")
    case False
    then show ?thesis
      using Cons.IH [of ?seen'] by simp
  next
    case True
    then have new: "\<not> isNew t"
      by (simp add: titleEntry_fields)
    have "trackLangKey dl t \<notin> trackLangKey dl ` set (filter markedOriginal (titleLoop dl ?seen' ts))"
    proof
      assume "trackLangKey dl t \<in> trackLangKey dl ` set (filter markedOriginal (titleLoop dl ?seen' ts))"
      then obtain t' where t': "t' \<in> set (titleLoop dl ?seen' ts)" "markedOriginal t'"
        "trackLangKey dl t' = trackLangKey dl t"
        by auto
      from titleLoop_marked [OF t'(1,2)] new t'(3) show False
        by simp
    qed
    with True show ?thesis
      using Cons.IH [of ?seen'] by (simp add: trackLangKey_titleEntry)
  qed
qed

lemma titleLoop_titles:
  "t' \<in> set (titleLoop dl seen ts) \<Longrightarrow>
   t_title t' = getLanguageName (t_language t') dl @
     (if markedOriginal t' then '' Original'' else []) @ '' - '' @
     trackCodecDisplay t' @ '' - '' @ trackChannelDisplay t'"
proof (induction ts arbitrary: seen)
  case Nil
  then show ?case by simp
next
  case (Cons t ts)
  from Cons.prems consider "t' = titleEntry dl seen t"
    | "t' \<in> set (titleLoop dl (if \<not> isNew t then trackLangKey dl t # seen else seen) ts)"
    by auto
  then show ?case
  proof cases
    case 1
    then show ?thesis
      by (simp add: titleEntry_def Let_def trackCodecDisplay_def trackChannelDisplay_def)
  next
    case 2
    then show ?thesis
      by (rule Cons.IH)
  qed
qed

lemma map_of_nonempty:
  "map_of map2 c = Some r \<Longrightarrow> r \<noteq> []" "map_of map3 c = Some r \<Longrightarrow> r \<noteq> []"
  by (auto simp: map2_def map3_def split: if_splits)

lemma normalizeLangCode_nonempty: "normalizeLangCode code \<noteq> []"
  using map_of_nonempty
  by (auto simp: normalizeLangCode_def Let_def toLowerCase_def split: option.splits if_splits)

lemma trackLangKey_normalized: "trackLangKey dl t = normalizeLangCode (t_language t)"
  by (simp add: trackLangKey_def orElse_def normalizeLangCode_nonempty)

lemma metaEntry_fields:
  "m_langKey (metaEntry dl inh seen idx s) = streamLangKey inh s"
  "m_isOriginal (metaEntry dl inh seen idx s) =
     (streamLangKey inh s \<notin> set seen \<and> detectDescriptor (tags_title s) = [])"
  "originalTitle (metaEntry dl inh seen idx s) = tags_title s"
  "m_descriptor (metaEntry dl inh seen idx s) = detectDescriptor (tags_title s)"
  "m_language (metaEntry dl inh seen idx s) = effectiveLanguage inh s"
  by (simp_all add: metaEntry_def Let_def)

lemma metaEntry_title:
  "\<exists>tail. m_title (metaEntry dl inh seen idx s) =
     getLanguageNameTitles (m_language (metaEntry dl inh seen idx s)) dl @
     (if m_isOriginal (metaEntry dl inh seen idx s) then '' Original'' else []) @
     (if m_descriptor (metaEntry dl inh seen idx s) = [] then []
      else CHR '' '' # m_descriptor (metaEntry dl inh seen idx s)) @
     '' - '' @ tail"
  by (simp add: metaEntry_def Let_def)

lemma metadataLoop_cases:
  assumes "m \<in> set (metadataLoop dl inh seen idx (s # rest))"
  obtains "isAudio s" "m = metaEntry dl inh seen idx s"
    | "isAudio s" "m \<in> set (metadataLoop dl inh (streamLangKey inh s # seen) (idx + 1) rest)"
    | "\<not> isAudio s" "m \<in> set (metadataLoop dl inh seen idx rest)"
  using assms by (auto simp: isAudio_def split: if_splits)

lemma metadataLoop_marked:
  "m \<in> set (metadataLoop dl inh seen idx ss) \<Longrightarrow> m_isOriginal m \<Longrightarrow> m_langKey m \<notin> set seen"
proof (induction ss arbitrary: seen idx)
  case Nil
  then show ?case by simp
next
  case (Cons s rest)
  from Cons.prems(1) show ?case
  proof (cases rule: metadataLoop_cases)
    case 1
    with Cons.prems(2) show ?thesis
      by (simp add: metaEntry_fields)
  next
    case 2
    from Cons.IH [OF 2(2) Cons.prems(2)] show ?thesis
      by simp
  next
    case 3
    from Cons.IH [OF 3(2) Cons.prems(2)] show ?thesis .
  qed
qed

lemma metadataLoop_distinct:
  "distinct (map m_langKey (filter m_isOriginal (metadataLoop dl inh seen idx ss)))"
proof (induction ss arbitrary: seen idx)
  case Nil
  then show ?case by simp
next
  case (Cons s rest)
  show ?case
  proof (cases "codec_type s = ''audio''")
    case False
    then show ?thesis
      using Cons.IH [of seen idx] by simp
  next
    case audio: True
    let ?rest = "metadataLoop dl inh (streamLangKey inh s # seen) (idx + 1) rest"
    have "streamLangKey inh s \<notin> m_langKey ` set (filter m_isOriginal ?rest)"
    proof
      assume "streamLangKey inh s \<in> m_langKey ` set (filter m_isOriginal ?rest)"
      then obtain m where m: "m \<in> set ?rest" "m_isOriginal m" "m_langKey m = streamLangKey inh s"
        by auto
      from metadataLoop_marked [OF m(1,2)] m(3) show False
        by simp
    qed
    with audio show ?thesis
      using Cons.IH [of "streamLangKey inh s # seen" "idx + 1"]
      by (simp add: metaEntry_fields)
  qed
qed

lemma hasSubstring_Nil: "sub \<noteq> [] \<Longrightarrow> \<not> hasSubstring [] sub"
  by simp

lemma marker_descriptor: "hasSecondaryMarker t \<Longrightarrow> detectDescriptor t \<noteq> []"
  by (cases "t = []") (auto simp: hasSecondaryMarker_def detectDescriptor_def Let_def toLowerCase_def)

lemma metadataLoop_secondary:
  "m \<in> set (metadataLoop dl inh seen idx ss) \<Longrightarrow> hasSecondaryMarker (originalTitle m) \<Longrightarrow>
   \<not> m_isOriginal m"
proof (induction ss arbitrary: seen idx)
  case Nil
  then show ?case by simp
next
  case (Cons s rest)
  from Cons.prems(1) show ?case
  proof (cases rule: metadataLoop_cases)
    case 1
    with Cons.prems(2) marker_descriptor [of "tags_title s"] show ?thesis
      by (simp add: metaEntry_fields)
  next
    case 2
    from Cons.IH [OF 2(2) Cons.prems(2)] show ?thesis .
  next
    case 3
    from Cons.IH [OF 3(2) Cons.prems(2)] show ?thesis .
  qed
qed

lemma metadataLoop_titles:
  "m \<in> set (metadataLoop dl inh seen idx ss) \<Longrightarrow>
   \<exists>tail. m_title m = getLanguageNameTitles (m_language m) dl @
     (if m_isOriginal m then '' Original'' else []) @
     (if m_descriptor m = [] then [] else CHR '' '' # m_descriptor m) @ '' - '' @ tail"
proof (induction ss arbitrary: seen idx)
  case Nil
  then show ?case by simp
next
  case (Cons s rest)
  from Cons.prems(1) show ?case
  proof (cases rule: metadataLoop_cases)
    case 1
    show ?thesis
      unfolding 1(2) by (rule metaEntry_title)
  next
    case 2
    from Cons.IH [OF 2(2)] show ?thesis .
  next
    case 3
    from Cons.IH [OF 3(2)] show ?thesis .
  qed
qed

text \<open>
  The claim C2 as stated fails: Process Audio Complete does not look at the title a track
  already has. A single English track titled \<open>Commentary\<close> is given the title
  \<open>English Original - DD - Stereo\<close>.
\<close>

theorem original_marker_counterexample:
  "hasSecondaryMarker ''Commentary'' \<and>
   map markedOriginal (outputAudio (the (planAudio defaultPolicy
      [audioStream ''ac3'' 2 ''eng'' ''Commentary'' (JNumber 1)]))) = [True] \<and>
   map t_title (outputAudio (the (planAudio defaultPolicy
      [audioStream ''ac3'' 2 ''eng'' ''Commentary'' (JNumber 1)]))) =
     [''English Original - DD - Stereo'']"
  by code_simp

text \<open>
  C2, as amended. In every plan of Process Audio Complete at most one track per normalized
  language carries \<open>Original\<close> in its synthesized title, and only existing tracks do; the
  prior title plays no part. In Normalize Audio Titles at most one track per language key
  (the lower-cased effective language with its eight three-letter aliases merged) carries
  \<open>Original\<close>, and a track whose prior title contains commentary, descriptive or director
  in any letter case never does. In both, the title is the language name, then \<open>Original\<close>
  exactly when the track is marked, then the descriptor if any, then codec and channels.
\<close>

theorem single_original:
  "(planAudio pol streams = Some pl \<longrightarrow>
      distinct (map (\<lambda>t. normalizeLangCode (t_language t))
         (filter markedOriginal (outputAudio pl))) \<and>
      (\<forall>t \<in> set (outputAudio pl).
         (markedOriginal t \<longrightarrow> \<not> isNew t) \<and>
         t_title t = getLanguageName (t_language t) (defaultLanguage pol) @
           (if markedOriginal t then '' Original'' else []) @ '' - '' @
           trackCodecDisplay t @ '' - '' @ trackChannelDisplay t)) \<and>
   distinct (map m_langKey (filter m_isOriginal (audioMetadata dl streams))) \<and>
   (\<forall>m \<in> set (audioMetadata dl streams).
      (hasSecondaryMarker (originalTitle m) \<longrightarrow> \<not> m_isOriginal m) \<and>
      (\<exists>tail. m_title m = getLanguageNameTitles (m_language m) dl @
         (if m_isOriginal m then '' Original'' else []) @
         (if m_descriptor m = [] then [] else CHR '' '' # m_descriptor m) @ '' - '' @ tail))"
proof -
  have plan: "planAudio pol streams = Some pl \<longrightarrow>
      distinct (map (\<lambda>t. normalizeLangCode (t_language t))
         (filter markedOriginal (outputAudio pl))) \<and>
      (\<forall>t \<in> set (outputAudio pl).
         (markedOriginal t \<longrightarrow> \<not> isNew t) \<and>
         t_title t = getLanguageName (t_language t) (defaultLanguage pol) @
           (if markedOriginal t then '' Original'' else []) @ '' - '' @
           trackCodecDisplay t @ '' - '' @ trackChannelDisplay t)"
  proof
    assume some: "planAudio pol streams = Some pl"
    let ?ts = "orderOutputAudio pol (buildOutputAudio pol (analyse pol streams))"
    have out: "outputAudio pl = titleLoop (defaultLanguage pol) [] ?ts"
      using plan_outputAudio [OF some] by simp
    have "distinct (map (trackLangKey (defaultLanguage pol)) (filter markedOriginal (outputAudio pl)))"
      unfolding out by (rule titleLoop_distinct)
    moreover have "trackLangKey (defaultLanguage pol) = (\<lambda>t. normalizeLangCode (t_language t))"
      by (rule ext) (rule trackLangKey_normalized)
    ultimately have one: "distinct (map (\<lambda>t. normalizeLangCode (t_language t))
         (filter markedOriginal (outputAudio pl)))"
      by simp
    have each: "\<forall>t \<in> set (outputAudio pl).
         (markedOriginal t \<longrightarrow> \<not> isNew t) \<and>
         t_title t = getLanguageName (t_language t) (defaultLanguage pol) @
           (if markedOriginal t then '' Original'' else []) @ '' - '' @
           trackCodecDisplay t @ '' - '' @ trackChannelDisplay t"
      unfolding out using titleLoop_marked titleLoop_titles by blast
    from one each show "distinct (map (\<lambda>t. normalizeLangCode (t_language t))
         (filter markedOriginal (outputAudio pl))) \<and>
      (\<forall>t \<in> set (outputAudio pl).
         (markedOriginal t \<longrightarrow> \<not> isNew t) \<and>
         t_title t = getLanguageName (t_language t) (defaultLanguage pol) @
           (if markedOriginal t then '' Original'' else []) @ '' - '' @
           trackCodecDisplay t @ '' - '' @ trackChannelDisplay t)"
      by (rule conjI)
  qed
  have titles1: "distinct (map m_langKey (filter m_isOriginal (audioMetadata dl streams)))"
    unfolding audioMetadata_def by (rule metadataLoop_distinct)
  have titles2: "\<forall>m \<in> set (audioMetadata dl streams).
      (hasSecondaryMarker (originalTitle m) \<longrightarrow> \<not> m_isOriginal m) \<and>
      (\<exists>tail. m_title m = getLanguageNameTitles (m_language m) dl @
         (if m_isOriginal m then '' Original'' else []) @
         (if m_descriptor m = [] then [] else CHR '' '' # m_descriptor m) @ '' - '' @ tail)"
    unfolding audioMetadata_def using metadataLoop_secondary metadataLoop_titles by blast
  from plan titles1 titles2 show ?thesis
    by (intro conjI)
qed

theorem single_original_witness:
  "\<not> m_isOriginal (audioMetadata ''eng''
       [audioStream ''ac3'' 6 ''fre'' [] (JNumber 1),
        audioStream ''ac3'' 2 ''fra'' ''Director Commentary'' (JNumber 0)] ! 1) \<and>
   map m_title (audioMetadata ''eng''
       [audioStream ''ac3'' 6 ''fre'' [] (JNumber 1),
        audioStream ''ac3'' 2 ''fra'' ''Director Commentary'' (JNumber 0)]) =
     [''French Original - DD - 5.1'', ''French Commentary - DD - Stereo''] \<and>
   distinct (map (\<lambda>t. normalizeLangCode (t_language t)) (filter markedOriginal
     (outputAudio (the (planAudio defaultPolicy
       [audioStream ''ac3'' 6 ''fre'' [] (JNumber 1),
        audioStream ''ac3'' 2 ''fra'' ''Director Commentary'' (JNumber 0)])))))"
proof -
  let ?ss = "[audioStream ''ac3'' 6 ''fre'' [] (JNumber 1),
        audioStream ''ac3'' 2 ''fra'' ''Director Commentary'' (JNumber 0)]"
  have some: "planAudio defaultPolicy ?ss = Some (the (planAudio defaultPolicy ?ss))"
    by code_simp
  have mem: "audioMetadata ''eng'' ?ss ! 1 \<in> set (audioMetadata ''eng'' ?ss)"
    by code_simp
  have marker: "hasSecondaryMarker (originalTitle (audioMetadata ''eng'' ?ss ! 1))"
    by code_simp
  have titles: "map m_title (audioMetadata ''eng'' ?ss) =
     [''French Original - DD - 5.1'', ''French Commentary - DD - Stereo'']"
    by code_simp
  show ?thesis
    using some mem marker titles
      single_original [of defaultPolicy ?ss "the (planAudio defaultPolicy ?ss)" "''eng''"]
    by blast
qed

section \<open>Two passes in succession\<close>

text \<open>
  C3, at two failing inputs, with the plugin's default inputs. A file with one French AC3
  5.1 track: the first pass adds a French AAC stereo track; the second pass, given that
  result, is no no-op: the stereo guard looks for an English or untagged stereo track only,
  so it adds a second stereo track (and reorders). A file with one English DTS 5.1 track
  (the specification's scenario A): the first pass gives the titles of the scenario; the
  second pass is no no-op either: the recoded track, new and without \<open>Original\<close> in the
  first pass, is now the first existing English track and is retitled \<open>Original\<close>.
\<close>

theorem second_pass_not_noop:
  "map tags_title (passStreams defaultPolicy [audioStream ''ac3'' 6 ''fre'' [] (JNumber 1)]) =
     [''French Original - DD - 5.1'', ''French - AAC - Stereo''] \<and>
   passIsNoOp defaultPolicy
     (passStreams defaultPolicy [audioStream ''ac3'' 6 ''fre'' [] (JNumber 1)]) = False \<and>
   map tags_title (passStreams defaultPolicy
     (passStreams defaultPolicy [audioStream ''ac3'' 6 ''fre'' [] (JNumber 1)])) =
     [''French Original - AAC - Stereo'', ''French - DD - 5.1'', ''French - AAC - Stereo''] \<and>
   map tags_title (passStreams defaultPolicy [audioStream ''dts'' 6 ''eng'' [] (JNumber 1)]) =
     [''English - DD+ - 5.1'', ''English Original - DTS - 5.1'', ''English - AAC - Stereo''] \<and>
   passIsNoOp defaultPolicy
     (passStreams defaultPolicy [audioStream ''dts'' 6 ''eng'' [] (JNumber 1)]) = False \<and>
   map tags_title (passStreams defaultPolicy
     (passStreams defaultPolicy [audioStream ''dts'' 6 ''eng'' [] (JNumber 1)])) =
     [''English Original - DD+ - 5.1'', ''English - DTS - 5.1'', ''English - AAC - Stereo'']"
  by code_simp

section \<open>The original file during replacement\<close>

lemma moveTemp_effect:
  assumes "files w1 (tempFile ps) = Some out"
    and "inputFile ps \<noteq> tempFile ps" "backupFile ps \<noteq> inputFile ps" "backupFile ps \<noteq> tempFile ps"
    and "moveTemp ft ps w1 = (threw, w2)"
  shows "files w2 (backupFile ps) = files w1 (backupFile ps)"
    and "clock w2 = clock w1"
    and "\<not> threw \<Longrightarrow> holdsOutput w1 out (files w2 (inputFile ps))"
  using assms
  by (auto simp: moveTemp_def renameSync_def copyFileSync_def unlinkSync_def holdsOutput_def
      split: if_splits prod.splits copyFault.splits)

lemma unlinkSync_frame: "q \<noteq> p \<Longrightarrow> files (snd (unlinkSync fails p w)) q = files w q"
  by (simp add: unlinkSync_def)

lemma safeUnlink_frame: "q \<noteq> p \<Longrightarrow> files (safeUnlink fails p w) q = files w q"
  by (simp add: safeUnlink_def unlinkSync_frame)

lemma releaseLock_frame: "q \<noteq> p \<Longrightarrow> files (releaseLock fails p w) q = files w q"
  by (simp add: releaseLock_def unlinkSync_frame)

lemma cleanup_frame:
  "q \<noteq> lockFile ps \<Longrightarrow> q \<noteq> p \<Longrightarrow>
   files (commitWorld (cleanup ft ps [p] code logged w)) q = files w q"
  by (simp add: cleanup_def safeUnlink_frame releaseLock_frame)

lemma cleanup_output: "commitOutput (cleanup ft ps fs code logged w) = code"
  by (simp add: cleanup_def)

lemma renameSync_cases:
  assumes "files w src = Some f" and "src \<noteq> dst"
  obtains "fails" "renameSync fails src dst w = (True, w)"
    | w' where "\<not> fails" "renameSync fails src dst w = (False, w')" "files w' dst = Some f"
        "files w' src = None" "\<And>q. q \<noteq> src \<Longrightarrow> q \<noteq> dst \<Longrightarrow> files w' q = files w q"
        "clock w' = clock w"
  using assms by (cases fails) (auto simp: renameSync_def)

theorem replaceStereoDownmix_outcome:
  assumes dist: "distinct [inputFile ps, tempFile ps, backupFile ps, lockFile ps]"
    and orig: "files w (inputFile ps) = Some orig"
    and out: "files w (tempFile ps) = Some out"
  shows "commitOutcome ft ps w orig out (replaceStereoDownmix ft ps w)"
proof -
  from dist have ne: "inputFile ps \<noteq> tempFile ps" "inputFile ps \<noteq> backupFile ps"
    "inputFile ps \<noteq> lockFile ps" "tempFile ps \<noteq> backupFile ps" "tempFile ps \<noteq> lockFile ps"
    "backupFile ps \<noteq> lockFile ps"
    by auto
  from orig ne(2) show ?thesis
  proof (cases rule: renameSync_cases [where fails = "backupRenameFails ft" and dst = "backupFile ps"])
    case 1
    then show ?thesis
      using orig ne by (simp add: replaceStereoDownmix_def commitOutcome_def cleanup_frame cleanup_output)
  next
    case (2 w1)
    have temp1: "files w1 (tempFile ps) = Some out"
      using 2(5) [of "tempFile ps"] ne out by simp
    obtain threw w2 where mv: "moveTemp ft ps w1 = (threw, w2)"
      by (cases "moveTemp ft ps w1")
    note eff = moveTemp_effect [OF temp1 ne(1) ne(2) [symmetric] ne(4) [symmetric] mv]
    show ?thesis
    proof (cases threw)
      case False
      with eff(3) 2(6) have "holdsOutput w out (files w2 (inputFile ps))"
        by (simp add: holdsOutput_def)
      with False 2(2) mv ne show ?thesis
        by (simp add: replaceStereoDownmix_def commitOutcome_def releaseLock_frame safeUnlink_frame)
    next
      case True
      let ?w3 = "safeUnlink (partialUnlinkFails ft) (inputFile ps) w2"
      have back3: "files ?w3 (backupFile ps) = Some orig"
        using eff(1) 2(3) ne by (simp add: safeUnlink_frame)
      from back3 ne(2) [symmetric] show ?thesis
      proof (cases rule: renameSync_cases [where fails = "restoreRenameFails ft" and dst = "inputFile ps"])
        case 1
        with True 2(1,2) mv back3 ne show ?thesis
          by (simp add: replaceStereoDownmix_def commitOutcome_def Let_def cleanup_frame cleanup_output)
      next
        case (2 w4)
        with True \<open>renameSync (backupRenameFails ft) (inputFile ps) (backupFile ps) w = (False, w1)\<close>
          mv ne show ?thesis
          by (simp add: replaceStereoDownmix_def commitOutcome_def Let_def cleanup_frame cleanup_output)
      qed
    qed
  qed
qed

lemma moveThenDrop_effect:
  assumes "files w1 (tempFile ps) = Some out" and "files w1 (backupFile ps) = Some orig"
    and "inputFile ps \<noteq> tempFile ps" "backupFile ps \<noteq> inputFile ps" "backupFile ps \<noteq> tempFile ps"
    and "(case moveTemp ft ps w1 of
            (True, w2) \<Rightarrow> (True, w2)
          | (False, w2) \<Rightarrow> unlinkSync (backupUnlinkFails ft) (backupFile ps) w2) = (threw, w3)"
  shows "\<not> threw \<Longrightarrow> holdsOutput w1 out (files w3 (inputFile ps))"
    and "threw \<Longrightarrow> files w3 (backupFile ps) = Some orig"
proof -
  obtain t2 w2 where mv: "moveTemp ft ps w1 = (t2, w2)"
    by (cases "moveTemp ft ps w1")
  note eff = moveTemp_effect [OF assms(1) assms(3) assms(4) assms(5) mv]
  show "\<not> threw \<Longrightarrow> holdsOutput w1 out (files w3 (inputFile ps))"
    using assms(6) mv eff(3) assms(4)
    by (cases t2) (auto simp: unlinkSync_def split: if_splits)
  show "threw \<Longrightarrow> files w3 (backupFile ps) = Some orig"
    using assms(6) mv eff(1) assms(2)
    by (cases t2) (auto simp: unlinkSync_def split: if_splits)
qed

theorem replaceNormalizeTitles_outcome:
  assumes dist: "distinct [inputFile ps, tempFile ps, backupFile ps, lockFile ps]"
    and orig: "files w (inputFile ps) = Some orig"
    and out: "files w (tempFile ps) = Some out"
  shows "commitOutcome ft ps w orig out (replaceNormalizeTitles ft ps w)"
proof -
  from dist have ne: "inputFile ps \<noteq> tempFile ps" "inputFile ps \<noteq> backupFile ps"
    "tempFile ps \<noteq> backupFile ps"
    by auto
  from orig ne(2) show ?thesis
  proof (cases rule: renameSync_cases [where fails = "backupRenameFails ft" and dst = "backupFile ps"])
    case 1
    then show ?thesis
      using orig ne by (simp add: replaceNormalizeTitles_def commitOutcome_def unlinkSync_frame)
  next
    case (2 w1)
    have temp1: "files w1 (tempFile ps) = Some out"
      using 2(5) [of "tempFile ps"] ne out by simp
    obtain threw w3 where mv: "(case moveTemp ft ps w1 of
            (True, w2) \<Rightarrow> (True, w2)
          | (False, w2) \<Rightarrow> unlinkSync (backupUnlinkFails ft) (backupFile ps) w2) = (threw, w3)"
      by (cases "(case moveTemp ft ps w1 of
            (True, w2) \<Rightarrow> (True, w2)
          | (False, w2) \<Rightarrow> unlinkSync (backupUnlinkFails ft) (backupFile ps) w2)")
    note eff = moveThenDrop_effect [OF temp1 2(3) ne(1) ne(2) [symmetric] ne(3) [symmetric] mv]
    show ?thesis
    proof (cases threw)
      case False
      with eff(1) 2(6) have "holdsOutput w out (files w3 (inputFile ps))"
        by (simp add: holdsOutput_def)
      with False 2(2) mv show ?thesis
        by (simp add: replaceNormalizeTitles_def commitOutcome_def)
    next
      case True
      from eff(2) [OF True] ne(2) [symmetric] show ?thesis
      proof (cases rule: renameSync_cases [where fails = "restoreRenameFails ft" and dst = "inputFile ps"])
        case 1
        with True 2(1,2) mv eff(2) ne show ?thesis
          by (simp add: replaceNormalizeTitles_def commitOutcome_def unlinkSync_frame)
      next
        case (2 w4)
        with True \<open>renameSync (backupRenameFails ft) (inputFile ps) (backupFile ps) w = (False, w1)\<close>
          mv ne show ?thesis
          by (simp add: replaceNormalizeTitles_def commitOutcome_def unlinkSync_frame)
      qed
    qed
  qed
qed

theorem replaceProcessAudio_outcome:
  assumes dist: "distinct [inputFile ps, tempFile ps, backupFile ps, lockFile ps]"
    and orig: "files w (inputFile ps) = Some orig"
    and out: "files w (tempFile ps) = Some out"
  shows "commitOutcome ft ps w orig out (replaceProcessAudio ft ps w)"
proof -
  from dist have ne: "inputFile ps \<noteq> tempFile ps" "inputFile ps \<noteq> backupFile ps"
    "tempFile ps \<noteq> backupFile ps"
    by auto
  from orig ne(2) show ?thesis
  proof (cases rule: renameSync_cases [where fails = "backupRenameFails ft" and dst = "backupFile ps"])
    case 1
    then show ?thesis
      using orig ne by (simp add: replaceProcessAudio_def commitOutcome_def unlinkSync_frame)
  next
    case (2 w1)
    have temp1: "files w1 (tempFile ps) = Some out"
      using 2(5) [of "tempFile ps"] ne out by simp
    obtain threw w3 where mv: "(case moveTemp ft ps w1 of
            (True, w2) \<Rightarrow> (True, w2)
          | (False, w2) \<Rightarrow> unlinkSync (backupUnlinkFails ft) (backupFile ps) w2) = (threw, w3)"
      by (cases "(case moveTemp ft ps w1 of
            (True, w2) \<Rightarrow> (True, w2)
          | (False, w2) \<Rightarrow> unlinkSync (backupUnlinkFails ft) (backupFile ps) w2)")
    note eff = moveThenDrop_effect [OF temp1 2(3) ne(1) ne(2) [symmetric] ne(3) [symmetric] mv]
    show ?thesis
    proof (cases threw)
      case False
      with eff(1) 2(6) have "holdsOutput w out (files w3 (inputFile ps))"
        by (simp add: holdsOutput_def)
      with False 2(2) mv show ?thesis
        by (simp add: replaceProcessAudio_def commitOutcome_def)
    next
      case True
      from eff(2) [OF True] ne(2) [symmetric] show ?thesis
      proof (cases rule: renameSync_cases [where fails = "restoreRenameFails ft" and dst = "inputFile ps"])
        case 1
        with True 2(1,2) mv eff(2) ne show ?thesis
          by (simp add: replaceProcessAudio_def commitOutcome_def Let_def unlinkSync_frame)
      next
        case (2 w4)
        with True \<open>renameSync (backupRenameFails ft) (inputFile ps) (backupFile ps) w = (False, w1)\<close>
          mv ne show ?thesis
          by (simp add: replaceProcessAudio_def commitOutcome_def Let_def unlinkSync_frame)
      qed
    qed
  qed
qed

text \<open>
  The claim C5 as stated fails: when the swap fails (rename and copy) and the restoring
  rename fails as well, the original path is left with no file at all, in all three
  plugins: neither untouched, nor replaced, nor restored.
\<close>

theorem replace_counterexample:
  "files (commitWorld (replaceStereoDownmix
      (noFaults\<lparr>swapRenameFails := True, copyOutcome := CopyFailsClean, restoreRenameFails := True\<rparr>)
      demoPaths demoWorld)) (inputFile demoPaths) = None \<and>
   files (commitWorld (replaceNormalizeTitles
      (noFaults\<lparr>swapRenameFails := True, copyOutcome := CopyFailsClean, restoreRenameFails := True\<rparr>)
      demoPaths demoWorld)) (inputFile demoPaths) = None \<and>
   files (commitWorld (replaceProcessAudio
      (noFaults\<lparr>swapRenameFails := True, copyOutcome := CopyFailsClean, restoreRenameFails := True\<rparr>)
      demoPaths demoWorld)) (inputFile demoPaths) = None \<and>
   files demoWorld (inputFile demoPaths) = Some demoOriginal"
  by code_simp

text \<open>
  C5, as amended. For distinct paths, with the original at the original path and the
  verified output at the temporary path, whatever file operations fail, each of the three
  replacements ends in one of these ways: output 1 with the output at the original path;
  output 2 with the original bytes at the original path (the backup rename failed and
  nothing was touched, or the backup was restored); or, only when the restoring rename
  fails, output 2 with the original bytes intact at the backup path.
\<close>

theorem original_never_lost:
  "distinct [inputFile ps, tempFile ps, backupFile ps, lockFile ps] \<and>
   files w (inputFile ps) = Some orig \<and> files w (tempFile ps) = Some out \<longrightarrow>
   commitOutcome ft ps w orig out (replaceStereoDownmix ft ps w) \<and>
   commitOutcome ft ps w orig out (replaceNormalizeTitles ft ps w) \<and>
   commitOutcome ft ps w orig out (replaceProcessAudio ft ps w)"
  using replaceStereoDownmix_outcome [of ps w orig out ft]
    replaceNormalizeTitles_outcome [of ps w orig out ft]
    replaceProcessAudio_outcome [of ps w orig out ft]
  by blast

theorem original_never_lost_witness:
  "commitOutcome noFaults demoPaths demoWorld demoOriginal demoOutput
     (replaceStereoDownmix noFaults demoPaths demoWorld) \<and>
   commitOutput (replaceStereoDownmix noFaults demoPaths demoWorld) = 1 \<and>
   files (commitWorld (replaceStereoDownmix noFaults demoPaths demoWorld)) (inputFile demoPaths) =
     Some demoOutput \<and>
   commitOutcome (noFaults\<lparr>swapRenameFails := True, copyOutcome := CopyFailsClean\<rparr>)
     demoPaths demoWorld demoOriginal demoOutput
     (replaceNormalizeTitles (noFaults\<lparr>swapRenameFails := True, copyOutcome := CopyFailsClean\<rparr>)
        demoPaths demoWorld) \<and>
   files (commitWorld
     (replaceNormalizeTitles (noFaults\<lparr>swapRenameFails := True, copyOutcome := CopyFailsClean\<rparr>)
        demoPaths demoWorld)) (inputFile demoPaths) = Some demoOriginal"
proof -
  have pre: "distinct [inputFile demoPaths, tempFile demoPaths, backupFile demoPaths, lockFile demoPaths] \<and>
      files demoWorld (inputFile demoPaths) = Some demoOriginal \<and>
      files demoWorld (tempFile demoPaths) = Some demoOutput"
    by code_simp
  have ok: "commitOutput (replaceStereoDownmix noFaults demoPaths demoWorld) = 1 \<and>
      files (commitWorld (replaceStereoDownmix noFaults demoPaths demoWorld)) (inputFile demoPaths) =
        Some demoOutput"
    by code_simp
  have restored: "files (commitWorld
     (replaceNormalizeTitles (noFaults\<lparr>swapRenameFails := True, copyOutcome := CopyFailsClean\<rparr>)
        demoPaths demoWorld)) (inputFile demoPaths) = Some demoOriginal"
    by code_simp
  show ?thesis
    using pre ok restored
      original_never_lost [of demoPaths demoWorld demoOriginal demoOutput noFaults]
      original_never_lost [of demoPaths demoWorld demoOriginal demoOutput
        "noFaults\<lparr>swapRenameFails := True, copyOutcome := CopyFailsClean\<rparr>"]
    by blast
qed

section \<open>The lock\<close>

lemma acquireLoop_gives_up:
  assumes "0 < d"
    and "\<forall>turn \<in> set turns. holder turn = KeepsMarker \<and> d \<le> min (sleepTakes turn) 2000"
    and "files w lockPath = Some marker"
    and "start + timeoutMs - mtimeMs marker \<le> staleAfterMs"
    and "start + timeoutMs - clock w \<le> d * int (length turns)"
  shows "\<exists>w'. acquireLoop lockPath timeoutMs start turns w = (Some False, w') \<and>
           files w' = files w"
  using assms(2,3,5)
proof (induction turns arbitrary: w)
  case Nil
  then show ?case by simp
next
  case (Cons turn turns)
  show ?case
  proof (cases "clock w - start < timeoutMs")
    case False
    then show ?thesis by simp
  next
    case time: True
    from Cons.prems(1) have keeps: "holder turn = KeepsMarker" and slow: "d \<le> min (sleepTakes turn) 2000"
      by simp_all
    show ?thesis
    proof (cases "writeDenied turn")
      case True
      with time keeps show ?thesis by simp
    next
      case False
      from time assms(4) have fresh: "\<not> clock w - mtimeMs marker > staleAfterMs"
        by simp
      let ?w = "sleepHalfSecond (sleepTakes turn) w"
      have step: "acquireLoop lockPath timeoutMs start (turn # turns) w =
          acquireLoop lockPath timeoutMs start turns ?w"
        using time keeps False fresh Cons.prems(2) by simp
      have "d \<le> clock ?w - clock w"
        using slow by (simp add: sleepHalfSecond_def)
      moreover have "start + timeoutMs - clock w \<le> d + d * int (length turns)"
        using Cons.prems(3) by (simp add: algebra_simps)
      ultimately have "start + timeoutMs - clock ?w \<le> d * int (length turns)"
        by linarith
      moreover have "files ?w lockPath = Some marker" "files ?w = files w"
        using Cons.prems(2) by (simp_all add: sleepHalfSecond_def)
      moreover from Cons.prems(1) have
        "\<forall>turn \<in> set turns. holder turn = KeepsMarker \<and> d \<le> min (sleepTakes turn) 2000"
        by simp
      ultimately show ?thesis
        using Cons.IH [of ?w] step by simp
    qed
  qed
qed

lemma acquireLoop_stale:
  assumes "clock w - start < timeoutMs" and "holder turn = KeepsMarker" and "\<not> writeDenied turn"
    and "files w lockPath = Some marker" and "clock w - mtimeMs marker > staleAfterMs"
  shows "acquireLoop lockPath timeoutMs start (turn # turns) w =
     acquireLoop lockPath timeoutMs start turns
       (if staleUnlinkFails turn then w else w\<lparr>files := (files w)(lockPath := None)\<rparr>)"
  using assms by (simp add: unlinkSync_def)

lemma acquireLoop_fresh:
  assumes "clock w - start < timeoutMs" and "holder turn = KeepsMarker" and "\<not> writeDenied turn"
    and "files w lockPath = Some marker" and "\<not> clock w - mtimeMs marker > staleAfterMs"
  shows "acquireLoop lockPath timeoutMs start (turn # turns) w =
     acquireLoop lockPath timeoutMs start turns (w\<lparr>clock := clock w + min (sleepTakes turn) 2000\<rparr>)"
  using assms by (simp add: sleepHalfSecond_def)

lemma acquireLoop_reclaims:
  assumes "clock w - start < timeoutMs" and "holder turn = KeepsMarker" and "\<not> writeDenied turn"
    and "files w lockPath = Some marker" and "clock w - mtimeMs marker > staleAfterMs"
    and "\<not> staleUnlinkFails turn" and "holder next = KeepsMarker" and "\<not> writeDenied next"
  shows "acquireLoop lockPath timeoutMs start (turn # next # turns) w =
     (Some True, w\<lparr>files := (files w)(lockPath \<mapsto> lockMarker w)\<rparr>)"
  using assms by (simp add: unlinkSync_def lockMarker_def)

text \<open>
  C6. In a turn of the acquisition loop that finds the marker (time left, no other write
  error, the holder keeping it): a marker older than two hours is unlinked and the next
  turn starts at the same clock value, and it acquires the lock when the unlink worked and
  nothing interferes; a marker that is not older makes the loop sleep, for at most two
  seconds, before the next turn, and nothing is deleted. And when a marker is held through
  all turns and stays fresh up to the end of the 30 second window, each sleep taking at
  least \<open>d > 0\<close> milliseconds and the turns covering the window, acquisition fails, the
  pass returns output 2, and no file has changed, the target among them.
\<close>

theorem lock_acquisition:
  "(clock w - start < timeoutMs \<and> holder turn = KeepsMarker \<and> \<not> writeDenied turn \<and>
    files w lockPath = Some marker \<longrightarrow>
      (clock w - mtimeMs marker > staleAfterMs \<longrightarrow>
         acquireLoop lockPath timeoutMs start (turn # turns) w =
           acquireLoop lockPath timeoutMs start turns
             (if staleUnlinkFails turn then w else w\<lparr>files := (files w)(lockPath := None)\<rparr>)) \<and>
      (clock w - mtimeMs marker > staleAfterMs \<and> \<not> staleUnlinkFails turn \<and>
       holder next = KeepsMarker \<and> \<not> writeDenied next \<longrightarrow>
         acquireLoop lockPath timeoutMs start (turn # next # turns) w =
           (Some True, w\<lparr>files := (files w)(lockPath \<mapsto> lockMarker w)\<rparr>)) \<and>
      (\<not> clock w - mtimeMs marker > staleAfterMs \<longrightarrow>
         acquireLoop lockPath timeoutMs start (turn # turns) w =
           acquireLoop lockPath timeoutMs start turns
             (w\<lparr>clock := clock w + min (sleepTakes turn) 2000\<rparr>))) \<and>
   (files w (lockFile ps) = Some marker \<and> clock w + 30000 - mtimeMs marker \<le> staleAfterMs \<and>
    0 < d \<and> 30000 \<le> d * int (length (lockTurns env)) \<and>
    (\<forall>turn \<in> set (lockTurns env). holder turn = KeepsMarker \<and> d \<le> min (sleepTakes turn) 2000) \<longrightarrow>
      (\<exists>r. stereoDownmixPass env ps w = Some r \<and> commitOutput r = 2 \<and>
           files (commitWorld r) = files w))"
proof -
  have turn: "clock w - start < timeoutMs \<and> holder turn = KeepsMarker \<and> \<not> writeDenied turn \<and>
    files w lockPath = Some marker \<longrightarrow>
      (clock w - mtimeMs marker > staleAfterMs \<longrightarrow>
         acquireLoop lockPath timeoutMs start (turn # turns) w =
           acquireLoop lockPath timeoutMs start turns
             (if staleUnlinkFails turn then w else w\<lparr>files := (files w)(lockPath := None)\<rparr>)) \<and>
      (clock w - mtimeMs marker > staleAfterMs \<and> \<not> staleUnlinkFails turn \<and>
       holder next = KeepsMarker \<and> \<not> writeDenied next \<longrightarrow>
         acquireLoop lockPath timeoutMs start (turn # next # turns) w =
           (Some True, w\<lparr>files := (files w)(lockPath \<mapsto> lockMarker w)\<rparr>)) \<and>
      (\<not> clock w - mtimeMs marker > staleAfterMs \<longrightarrow>
         acquireLoop lockPath timeoutMs start (turn # turns) w =
           acquireLoop lockPath timeoutMs start turns
             (w\<lparr>clock := clock w + min (sleepTakes turn) 2000\<rparr>))"
    using acquireLoop_stale [of w start timeoutMs turn lockPath marker turns]
      acquireLoop_reclaims [of w start timeoutMs turn lockPath marker "next" turns]
      acquireLoop_fresh [of w start timeoutMs turn lockPath marker turns]
    by blast
  have pass: "files w (lockFile ps) = Some marker \<and> clock w + 30000 - mtimeMs marker \<le> staleAfterMs \<and>
    0 < d \<and> 30000 \<le> d * int (length (lockTurns env)) \<and>
    (\<forall>turn \<in> set (lockTurns env). holder turn = KeepsMarker \<and> d \<le> min (sleepTakes turn) 2000) \<longrightarrow>
      (\<exists>r. stereoDownmixPass env ps w = Some r \<and> commitOutput r = 2 \<and>
           files (commitWorld r) = files w)"
  proof
    assume h: "files w (lockFile ps) = Some marker \<and> clock w + 30000 - mtimeMs marker \<le> staleAfterMs \<and>
      0 < d \<and> 30000 \<le> d * int (length (lockTurns env)) \<and>
      (\<forall>turn \<in> set (lockTurns env). holder turn = KeepsMarker \<and> d \<le> min (sleepTakes turn) 2000)"
    then have "clock w + 30000 - clock w \<le> d * int (length (lockTurns env))"
      by simp
    with h obtain w' where
      "acquireLoop (lockFile ps) 30000 (clock w) (lockTurns env) w = (Some False, w')"
      "files w' = files w"
      using acquireLoop_gives_up [of d "lockTurns env" w "lockFile ps" marker "clock w" 30000]
      by blast
    then show "\<exists>r. stereoDownmixPass env ps w = Some r \<and> commitOutput r = 2 \<and>
           files (commitWorld r) = files w"
      by (simp add: stereoDownmixPass_def acquireLock_def)
  qed
  from turn pass show ?thesis
    by (rule conjI)
qed

theorem lock_acquisition_witness:
  "(\<exists>r. stereoDownmixPass demoCollaborators demoPaths lockedWorld = Some r \<and> commitOutput r = 2 \<and>
        files (commitWorld r) = files lockedWorld) \<and>
   files lockedWorld (inputFile demoPaths) = Some demoOriginal \<and>
   clock (commitWorld (the (stereoDownmixPass demoCollaborators demoPaths lockedWorld))) = 36000"
proof -
  have marker: "files lockedWorld (lockFile demoPaths) = Some \<lparr>mtimeMs = 5000, size = 0, content = 0\<rparr>"
    by code_simp
  have fresh: "clock lockedWorld + 30000 - mtimeMs \<lparr>mtimeMs = 5000, size = 0, content = 0\<rparr> \<le> staleAfterMs"
    by code_simp
  have turns: "(0::int) < 500 \<and> 30000 \<le> 500 * int (length (lockTurns demoCollaborators)) \<and>
      (\<forall>turn \<in> set (lockTurns demoCollaborators).
         holder turn = KeepsMarker \<and> 500 \<le> min (sleepTakes turn) 2000)"
    by (simp add: demoCollaborators_def heldTurn_def)
  have target: "files lockedWorld (inputFile demoPaths) = Some demoOriginal"
    by code_simp
  have time: "clock (commitWorld (the (stereoDownmixPass demoCollaborators demoPaths lockedWorld))) = 36000"
    by code_simp
  show ?thesis
    using marker fresh turns target time
      lock_acquisition [of lockedWorld 0 0 heldTurn "lockFile demoPaths"
        "\<lparr>mtimeMs = 5000, size = 0, content = 0\<rparr>" "[]" heldTurn demoPaths 500 demoCollaborators]
    by blast
qed

end
